theory Spec2Isabelle
  imports Complex_Main
begin

section \<open>Python values used by the tools\<close>

text \<open>
  The three tool scripts (\<^verbatim>\<open>binance.py\<close>, \<^verbatim>\<open>self_time.py\<close> and
  \<^verbatim>\<open>self_time_50bilile.py\<close>) each define a class \<^verbatim>\<open>BinanceFuturesUtil\<close> with the
  same method names. The embedding keeps the method names and marks the file by a suffix:
  \<open>_bn\<close> for \<^verbatim>\<open>binance.py\<close>, \<open>_st\<close> for \<^verbatim>\<open>self_time.py\<close> and \<open>_50\<close>
  for \<^verbatim>\<open>self_time_50bilile.py\<close>.

  Python floats are modelled as \<open>real\<close>: the claims concern comparisons, the order
  of results and which branch is taken, not rounding. Strings are ASCII \<open>string\<close>s.
  Everything fetched over HTTP is an argument of the model (an oracle from the request
  to the response), so that a claim quantifies over every behaviour of the upstream.
\<close>

datatype py_error = ZeroDivisionError

subsection \<open>Strings: \<^verbatim>\<open>str.upper\<close>, \<^verbatim>\<open>str.endswith\<close>, \<^verbatim>\<open>str.replace\<close>\<close>

definition ascii_lowercase :: string where
  "ascii_lowercase = ''abcdefghijklmnopqrstuvwxyz''"

definition ascii_uppercase :: string where
  "ascii_uppercase = ''ABCDEFGHIJKLMNOPQRSTUVWXYZ''"

definition upper_char :: "char \<Rightarrow> char" where
  "upper_char c =
     (case map_of (zip ascii_lowercase ascii_uppercase) c of
        None \<Rightarrow> c
      | Some u \<Rightarrow> u)"

definition upper :: "string \<Rightarrow> string" where
  "upper s = map upper_char s"

definition endswith :: "string \<Rightarrow> string \<Rightarrow> bool" where
  "endswith s suffix =
     (length suffix \<le> length s \<and> drop (length s - length suffix) s = suffix)"

definition startswith :: "string \<Rightarrow> string \<Rightarrow> bool" where
  "startswith s pre = (take (length pre) s = pre)"

text \<open>
  \<^verbatim>\<open>s.replace(old, new)\<close> for a non-empty \<open>old\<close>: the occurrences are found from the
  left and do not overlap; every one of them is replaced. (The tools only call it with
  \<open>old = "USDT"\<close>; for an empty \<open>old\<close> this model returns \<open>s\<close>.)
\<close>

fun replace_from :: "nat \<Rightarrow> string \<Rightarrow> string \<Rightarrow> string \<Rightarrow> string" where
  "replace_from skip old new [] = []"
| "replace_from (Suc skip) old new (c # cs) = replace_from skip old new cs"
| "replace_from 0 old new (c # cs) =
     (if old \<noteq> [] \<and> startswith (c # cs) old
      then new @ replace_from (length old - 1) old new cs
      else c # replace_from 0 old new cs)"

definition replace :: "string \<Rightarrow> string \<Rightarrow> string \<Rightarrow> string" where
  "replace s old new = replace_from 0 old new s"

text \<open>
  The base ticker, as all three screeners derive it:
  \<^verbatim>\<open>base = symbol.replace("USDT", "").upper()\<close>; and the output tag
  \<^verbatim>\<open>f"{base}/USDT:USDT"\<close>.
\<close>

definition base_of :: "string \<Rightarrow> string" where
  "base_of symbol = upper (replace symbol ''USDT'' '''')"

definition tag_of :: "string \<Rightarrow> string" where
  "tag_of base = base @ ''/USDT:USDT''"

text \<open>The spec's base ticker: the trailing suffix \<open>"USDT"\<close> stripped, the rest upper-cased.\<close>

definition spec_base_ticker :: "string \<Rightarrow> string" where
  "spec_base_ticker symbol = upper (take (length symbol - 4) symbol)"

subsection \<open>Slices and sorting\<close>

text \<open>
  \<^verbatim>\<open>xs[:n]\<close>: the first \<open>n\<close> elements for \<open>n \<ge> 0\<close>; for a negative \<open>n\<close> all but the
  last \<open>-n\<close> elements.
\<close>

definition slice_to :: "'a list \<Rightarrow> int \<Rightarrow> 'a list" where
  "slice_to xs n =
     (if 0 \<le> n then take (nat n) xs else take (nat (int (length xs) + n)) xs)"

text \<open>
  \<^verbatim>\<open>results.sort(key=lambda x: x["ratio"], reverse=True)\<close> and
  \<^verbatim>\<open>sorted(result, key=..., reverse=True)\<close>: a stable sort by descending key, that is a
  stable ascending sort by the negated key.
\<close>

definition sort_reverse :: "('a \<Rightarrow> real) \<Rightarrow> 'a list \<Rightarrow> 'a list" where
  "sort_reverse key xs = sort_key (\<lambda>x. - key x) xs"

section \<open>The volume sampler\<close>

text \<open>
  A calendar date (the parsed \<^verbatim>\<open>date_str\<close>, format \<^verbatim>\<open>"%Y%m%d"\<close>) is the number of
  days since 1970-01-01; \<^verbatim>\<open>"20250603"\<close> is day \<open>20242\<close>. \<^verbatim>\<open>date + timedelta(days=1)\<close>
  is the next day number and \<^verbatim>\<open>date - timedelta(days=i)\<close> the day number less \<open>i\<close>;
  the dates are taken to stay inside the range of \<^verbatim>\<open>datetime\<close> (years 1 to 9999) and
  \<^verbatim>\<open>date_str\<close> to parse.

  \<^verbatim>\<open>datetime.strptime\<close> returns a naive datetime, and \<^verbatim>\<open>timestamp()\<close> of a naive
  datetime reads it as local time of the host. The host's time zone is the function
  \<open>utcoffset\<close>: the seconds the local clock is ahead of UTC at local midnight of a day.
  The timestamp of local midnight of day \<open>d\<close> is then \<open>d * 86400 - utcoffset d\<close>
  seconds, and \<^verbatim>\<open>int(... * 1000)\<close> gives milliseconds.
\<close>

text \<open>The day number of the civil date \<open>y\<close>-\<open>m\<close>-\<open>d\<close> (proleptic Gregorian calendar).\<close>

definition days_from_civil :: "int \<Rightarrow> int \<Rightarrow> int \<Rightarrow> int" where
  "days_from_civil y m d =
     (let y' = (if m \<le> 2 then y - 1 else y);
          era = y' div 400;
          yoe = y' - era * 400;
          doy = (153 * (if 2 < m then m - 3 else m + 9) + 2) div 5 + d - 1;
          doe = yoe * 365 + yoe div 4 - yoe div 100 + doy
      in era * 146097 + doe - 719468)"

definition timestamp :: "(int \<Rightarrow> int) \<Rightarrow> int \<Rightarrow> int" where
  "timestamp utcoffset d = d * 86400 - utcoffset d"

record kline_params =
  kp_symbol :: string
  kp_interval :: string
  kp_startTime :: int
  kp_endTime :: int
  kp_limit :: int

text \<open>The query of \<^verbatim>\<open>get_daily_volume\<close> (the same in both files that have it).\<close>

definition daily_volume_params :: "(int \<Rightarrow> int) \<Rightarrow> string \<Rightarrow> int \<Rightarrow> kline_params" where
  "daily_volume_params utcoffset symbol date =
     (let start_ts = timestamp utcoffset date * 1000;
          end_ts = timestamp utcoffset (date + 1) * 1000
      in \<lparr>kp_symbol = symbol, kp_interval = ''1d'', kp_startTime = start_ts,
          kp_endTime = end_ts, kp_limit = 1\<rparr>)"

text \<open>
  A candle carries the close price (index 4) and the base volume (index 5). The answer to
  a request is a list of candles, or a failure: a transport error, a non-2xx status
  (\<^verbatim>\<open>raise_for_status\<close>) or a body that does not parse, each of which makes
  \<^verbatim>\<open>get_daily_volume\<close> raise.
\<close>

record kline =
  close_price :: real
  volume :: real

datatype klines_response = KlinesFailed | Klines "kline list"

datatype ticker_response = TickerFailed | Ticker "real option" "real option"

record env =
  utcoffset :: "int \<Rightarrow> int"
  klines_api :: "kline_params \<Rightarrow> klines_response"
  ticker_api :: "string \<Rightarrow> ticker_response"

definition get_daily_volume :: "env \<Rightarrow> string \<Rightarrow> int \<Rightarrow> unit + real" where
  "get_daily_volume E symbol date =
     (case klines_api E (daily_volume_params (utcoffset E) symbol date) of
        KlinesFailed \<Rightarrow> Inl ()
      | Klines [] \<Rightarrow> Inr 0
      | Klines (k # _) \<Rightarrow> Inr (close_price k * volume k))"

section \<open>The ratio screener\<close>

record result =
  symbol :: string
  volume_usdt :: real
  market_cap :: real
  ratio :: real
  price :: real
  change :: real
  tag :: string

text \<open>
  The enrichment of a qualifying day: the live ticker, with both fields \<open>0\<close> when the
  request fails and a field \<open>0\<close> when its key is absent (\<^verbatim>\<open>ticker.get(key, 0)\<close>).
\<close>

definition make_result :: "env \<Rightarrow> string \<Rightarrow> string \<Rightarrow> real \<Rightarrow> real \<Rightarrow> real \<Rightarrow> result" where
  "make_result E sy base mc vol r =
     (let (p, c) =
        (case ticker_api E sy of
           TickerFailed \<Rightarrow> (0, 0)
         | Ticker lastPrice priceChangePercent \<Rightarrow>
             (case lastPrice of None \<Rightarrow> 0 | Some x \<Rightarrow> x,
              case priceChangePercent of None \<Rightarrow> 0 | Some x \<Rightarrow> x))
      in \<lparr>symbol = sy, volume_usdt = vol, market_cap = mc, ratio = r,
          price = p, change = c, tag = tag_of base\<rparr>)"

text \<open>
  The volume the scan uses for the day at offset \<open>i\<close>: what \<^verbatim>\<open>get_daily_volume\<close>
  returns, and \<open>0\<close> when it raises (the \<^verbatim>\<open>except\<close> branch of the loop body).
\<close>

definition day_volume :: "env \<Rightarrow> string \<Rightarrow> int \<Rightarrow> nat \<Rightarrow> real" where
  "day_volume E sy date i =
     (case get_daily_volume E sy (date - int i) of Inl _ \<Rightarrow> 0 | Inr v \<Rightarrow> v)"

text \<open>
  The body of \<^verbatim>\<open>for i in range(days)\<close> in \<^verbatim>\<open>self_time.py\<close>: the division
  \<^verbatim>\<open>volume_usdt / market_cap\<close> is not guarded, and raises for a zero market cap.
\<close>

fun scan_st :: "env \<Rightarrow> string \<Rightarrow> string \<Rightarrow> real \<Rightarrow> int \<Rightarrow> real \<Rightarrow> nat list
                \<Rightarrow> py_error + result option" where
  "scan_st E sy base mc date threshold [] = Inr None"
| "scan_st E sy base mc date threshold (i # is) =
     (let volume_usdt = day_volume E sy date i in
      if mc = 0 then Inl ZeroDivisionError
      else let r = volume_usdt / mc in
        if r > threshold then Inr (Some (make_result E sy base mc volume_usdt r))
        else scan_st E sy base mc date threshold is)"

definition check_symbol_volume_ratio_st ::
  "env \<Rightarrow> string \<Rightarrow> string \<Rightarrow> real \<Rightarrow> int \<Rightarrow> int \<Rightarrow> real \<Rightarrow> py_error + result option" where
  "check_symbol_volume_ratio_st E sy base mc date days threshold =
     scan_st E sy base mc date threshold [0..<nat days]"

text \<open>
  The same loop in \<^verbatim>\<open>self_time_50bilile.py\<close>, with its guard
  \<^verbatim>\<open>if market_cap == 0: continue\<close> before the division.
\<close>

fun scan_50 :: "env \<Rightarrow> string \<Rightarrow> string \<Rightarrow> real \<Rightarrow> int \<Rightarrow> real \<Rightarrow> nat list
                \<Rightarrow> py_error + result option" where
  "scan_50 E sy base mc date threshold [] = Inr None"
| "scan_50 E sy base mc date threshold (i # is) =
     (let volume_usdt = day_volume E sy date i in
      if mc = 0 then scan_50 E sy base mc date threshold is
      else let r = volume_usdt / mc in
        if r > threshold then Inr (Some (make_result E sy base mc volume_usdt r))
        else scan_50 E sy base mc date threshold is)"

definition check_symbol_volume_ratio_50 ::
  "env \<Rightarrow> string \<Rightarrow> string \<Rightarrow> real \<Rightarrow> int \<Rightarrow> int \<Rightarrow> real \<Rightarrow> py_error + result option" where
  "check_symbol_volume_ratio_50 E sy base mc date days threshold =
     scan_50 E sy base mc date threshold [0..<nat days]"

subsection \<open>Market caps as the screeners read them\<close>

text \<open>
  A market cap in a JSON record or in the mapping is a number or \<^verbatim>\<open>null\<close>. A lookup
  \<^verbatim>\<open>cg_market_caps.get(base)\<close> is \<open>None\<close> for an unknown key. The screeners skip a
  symbol under \<^verbatim>\<open>if not market_cap or market_cap == 0\<close>: \<open>truthy_number\<close> gives the
  number that passes this test, and \<open>None\<close> for an absent key, \<^verbatim>\<open>null\<close> and \<open>0\<close>.
\<close>

datatype jnum = JNull | JNum real

type_synonym market_caps = "string \<rightharpoonup> jnum"

definition truthy_number :: "jnum option \<Rightarrow> real option" where
  "truthy_number v =
     (case v of
        None \<Rightarrow> None
      | Some JNull \<Rightarrow> None
      | Some (JNum x) \<Rightarrow> (if x = 0 then None else Some x))"

definition exclude_symbols :: "string set" where
  "exclude_symbols = {''BTC'', ''ETH''}"

subsection \<open>\<^verbatim>\<open>self_time.py\<close> and \<^verbatim>\<open>self_time_50bilile.py\<close>\<close>

text \<open>
  The submission loop: one future per eligible symbol, in the order of \<open>symbols\<close>. A
  future is modelled by the outcome of its call.
\<close>

fun submit_st :: "env \<Rightarrow> market_caps \<Rightarrow> int \<Rightarrow> int \<Rightarrow> real \<Rightarrow> string list
                  \<Rightarrow> (py_error + result option) list" where
  "submit_st E cg_market_caps date days threshold [] = []"
| "submit_st E cg_market_caps date days threshold (sy # symbols) =
     (let base = base_of sy in
      if base \<in> exclude_symbols then submit_st E cg_market_caps date days threshold symbols
      else case truthy_number (cg_market_caps base) of
        None \<Rightarrow> submit_st E cg_market_caps date days threshold symbols
      | Some mc \<Rightarrow>
          check_symbol_volume_ratio_st E sy base mc date days threshold
            # submit_st E cg_market_caps date days threshold symbols)"

fun submit_50 :: "env \<Rightarrow> market_caps \<Rightarrow> int \<Rightarrow> int \<Rightarrow> real \<Rightarrow> real \<Rightarrow> string list
                  \<Rightarrow> (py_error + result option) list" where
  "submit_50 E cg_market_caps date days threshold max_market_cap [] = []"
| "submit_50 E cg_market_caps date days threshold max_market_cap (sy # symbols) =
     (let base = base_of sy in
      if base \<in> exclude_symbols
      then submit_50 E cg_market_caps date days threshold max_market_cap symbols
      else case truthy_number (cg_market_caps base) of
        None \<Rightarrow> submit_50 E cg_market_caps date days threshold max_market_cap symbols
      | Some mc \<Rightarrow>
          if mc > max_market_cap
          then submit_50 E cg_market_caps date days threshold max_market_cap symbols
          else check_symbol_volume_ratio_50 E sy base mc date days threshold
                 # submit_50 E cg_market_caps date days threshold max_market_cap symbols)"

text \<open>
  \<^verbatim>\<open>for future in as_completed(futures): res = future.result(); ...\<close>: the results
  are appended in the order the futures are visited, and \<^verbatim>\<open>future.result()\<close> re-raises
  what its call raised.
\<close>

fun collect_results :: "(py_error + result option) list \<Rightarrow> py_error + result list" where
  "collect_results [] = Inr []"
| "collect_results (f # fs) =
     (case f of
        Inl e \<Rightarrow> Inl e
      | Inr res \<Rightarrow>
          (case collect_results fs of
             Inl e \<Rightarrow> Inl e
           | Inr results \<Rightarrow> Inr (case res of None \<Rightarrow> results | Some r \<Rightarrow> r # results)))"

text \<open>
  The screener after its two fetches: \<open>cg_market_caps\<close> and \<open>symbols\<close> are what
  \<^verbatim>\<open>get_coingecko_market_caps()\<close> and \<^verbatim>\<open>get_usdt_perpetual_symbols()\<close> returned, and
  \<open>date\<close> is the day of \<^verbatim>\<open>date_str\<close> (today's UTC date when the caller gave none).
  The thread pool completes the futures in an order of its own: \<open>as_completed\<close> is that
  reordering, an argument of the model.
\<close>

definition get_high_volume_to_marketcap_contracts_st ::
  "env \<Rightarrow> ((py_error + result option) list \<Rightarrow> (py_error + result option) list)
     \<Rightarrow> market_caps \<Rightarrow> string list \<Rightarrow> int \<Rightarrow> int \<Rightarrow> real \<Rightarrow> int \<Rightarrow> py_error + result list" where
  "get_high_volume_to_marketcap_contracts_st E as_completed cg_market_caps symbols
       date days threshold limit =
     (case collect_results (as_completed (submit_st E cg_market_caps date days threshold symbols)) of
        Inl e \<Rightarrow> Inl e
      | Inr results \<Rightarrow> Inr (slice_to (sort_reverse ratio results) limit))"

definition get_high_volume_to_marketcap_contracts_50 ::
  "env \<Rightarrow> ((py_error + result option) list \<Rightarrow> (py_error + result option) list)
     \<Rightarrow> market_caps \<Rightarrow> string list \<Rightarrow> int \<Rightarrow> int \<Rightarrow> real \<Rightarrow> int \<Rightarrow> real
     \<Rightarrow> py_error + result list" where
  "get_high_volume_to_marketcap_contracts_50 E as_completed cg_market_caps symbols
       date days threshold limit max_market_cap =
     (case collect_results
             (as_completed (submit_50 E cg_market_caps date days threshold max_market_cap symbols)) of
        Inl e \<Rightarrow> Inl e
      | Inr results \<Rightarrow> Inr (slice_to (sort_reverse ratio results) limit))"

subsection \<open>\<^verbatim>\<open>binance.py\<close>\<close>

text \<open>A record of the all-symbols 24h ticker, its three numeric fields parsed.\<close>

record contract =
  c_symbol :: string
  quoteVolume :: real
  lastPrice :: real
  priceChangePercent :: real

definition get_all_usdt_contracts :: "contract list \<Rightarrow> contract list" where
  "get_all_usdt_contracts all_contracts =
     filter (\<lambda>c. endswith (c_symbol c) ''USDT'') all_contracts"

fun screen_loop_bn :: "market_caps \<Rightarrow> real \<Rightarrow> contract list \<Rightarrow> result list" where
  "screen_loop_bn cg_market_caps threshold [] = []"
| "screen_loop_bn cg_market_caps threshold (c # contracts) =
     (let sy = c_symbol c in
      if \<not> endswith sy ''USDT'' then screen_loop_bn cg_market_caps threshold contracts
      else let base = base_of sy in
        if base \<in> exclude_symbols then screen_loop_bn cg_market_caps threshold contracts
        else case truthy_number (cg_market_caps base) of
          None \<Rightarrow> screen_loop_bn cg_market_caps threshold contracts
        | Some mc \<Rightarrow>
            (let r = quoteVolume c / mc in
             if r \<ge> threshold
             then \<lparr>symbol = sy, volume_usdt = quoteVolume c, market_cap = mc, ratio = r,
                   price = lastPrice c, change = priceChangePercent c, tag = tag_of base\<rparr>
                  # screen_loop_bn cg_market_caps threshold contracts
             else screen_loop_bn cg_market_caps threshold contracts))"

definition get_high_volume_to_marketcap_contracts_bn ::
  "market_caps \<Rightarrow> contract list \<Rightarrow> real \<Rightarrow> int \<Rightarrow> result list" where
  "get_high_volume_to_marketcap_contracts_bn cg_market_caps all_contracts threshold limit =
     slice_to
       (sort_reverse ratio
          (screen_loop_bn cg_market_caps threshold (get_all_usdt_contracts all_contracts)))
       limit"

section \<open>The market-cap cache\<close>

text \<open>
  The answer to a \<^verbatim>\<open>/coins/markets\<close> page request is a failure (transport error,
  non-2xx status, a body that is not JSON) or a list of items. An item is a JSON object or
  something else. In an object each of the two keys the tools read is present or absent;
  a symbol that is present is a string or some other value (\<^verbatim>\<open>null\<close>, a number, ...),
  on which \<^verbatim>\<open>.upper()\<close> raises; a market cap that is present is a number or
  \<^verbatim>\<open>null\<close>. (A body that is not a list behaves as one of these pages: as the empty
  page when it is falsy, and otherwise as a page whose first item is not an object.)
\<close>

datatype jsymbol = JString string | JNotString

record coin =
  coin_symbol :: "jsymbol option"
  coin_market_cap :: "jnum option"

datatype page_item = NotObject | Object coin

datatype page_response = PageFailed | Page "page_item list"

subsection \<open>\<^verbatim>\<open>self_time.py\<close> and \<^verbatim>\<open>self_time_50bilile.py\<close>\<close>

text \<open>
  \<^verbatim>\<open>coin.get("symbol", "")\<close>, when it is a string: the symbol, the empty string for an
  absent key, and \<open>None\<close> for a value on which \<^verbatim>\<open>.upper()\<close> raises.
\<close>

definition symbol_or_empty :: "coin \<Rightarrow> string option" where
  "symbol_or_empty c =
     (case coin_symbol c of
        None \<Rightarrow> Some []
      | Some (JString s) \<Rightarrow> Some s
      | Some JNotString \<Rightarrow> None)"

text \<open>
  \<^verbatim>\<open>for coin in data: symbol = coin.get("symbol", "").upper();
  market_cap = coin.get("market_cap");
  if symbol and market_cap: market_caps[symbol] = market_cap\<close>.
  The loop stands inside the \<^verbatim>\<open>try\<close> of the page: an item that is not an object, or
  whose symbol is not a string, raises in its first statement. The mapping keeps what
  was stored before; the second component says whether the loop raised.
\<close>

fun merge_page_st :: "market_caps \<Rightarrow> page_item list \<Rightarrow> market_caps \<times> bool" where
  "merge_page_st market_caps [] = (market_caps, False)"
| "merge_page_st market_caps (NotObject # data) = (market_caps, True)"
| "merge_page_st market_caps (Object c # data) =
     (case symbol_or_empty c of
        None \<Rightarrow> (market_caps, True)
      | Some s \<Rightarrow>
          (let sy = upper s in
           if sy \<noteq> [] then
             (case truthy_number (coin_market_cap c) of
                None \<Rightarrow> merge_page_st market_caps data
              | Some x \<Rightarrow> merge_page_st (market_caps(sy \<mapsto> JNum x)) data)
           else merge_page_st market_caps data))"

text \<open>
  \<^verbatim>\<open>for page in range(1, pages + 1)\<close>, with its two \<^verbatim>\<open>break\<close>s: on an empty page,
  and in the \<^verbatim>\<open>except\<close> branch, which a failed request and a raising item both reach.
  The second component is the list of pages requested, in the order of the requests.
\<close>

fun fetch_pages_st :: "(int \<Rightarrow> page_response) \<Rightarrow> market_caps \<Rightarrow> int list
                       \<Rightarrow> market_caps \<times> int list" where
  "fetch_pages_st net market_caps [] = (market_caps, [])"
| "fetch_pages_st net market_caps (page # rest) =
     (case net page of
        PageFailed \<Rightarrow> (market_caps, [page])
      | Page data \<Rightarrow>
          if data = [] then (market_caps, [page])
          else (case merge_page_st market_caps data of
                  (market_caps', raised) \<Rightarrow>
                    if raised then (market_caps', [page])
                    else (let (m, reqs) = fetch_pages_st net market_caps' rest
                          in (m, page # reqs))))"

text \<open>
  The cache file of these two scripts: absent, not readable as a JSON object, or an
  object whose keys \<^verbatim>\<open>"timestamp"\<close> and \<^verbatim>\<open>"data"\<close> are each present or absent.
\<close>

datatype cache_file_st = Absent | Unreadable | Snapshot "real option" "market_caps option"

definition read_cache_st :: "real \<Rightarrow> real \<Rightarrow> cache_file_st \<Rightarrow> market_caps option" where
  "read_cache_st now cache_ttl file =
     (case file of
        Absent \<Rightarrow> None
      | Unreadable \<Rightarrow> None
      | Snapshot ts data \<Rightarrow>
          if now - (case ts of None \<Rightarrow> 0 | Some t \<Rightarrow> t) < cache_ttl
          then Some (case data of None \<Rightarrow> Map.empty | Some d \<Rightarrow> d)
          else None)"

text \<open>
  The call returns the mapping, the cache file it leaves and the pages it requested.
  \<open>writable\<close> says whether opening the file for writing succeeds; \<open>now\<close> is
  \<^verbatim>\<open>time.time()\<close> at the start of the call.
\<close>

definition get_coingecko_market_caps_st ::
  "(int \<Rightarrow> page_response) \<Rightarrow> bool \<Rightarrow> real \<Rightarrow> int \<Rightarrow> real \<Rightarrow> cache_file_st
     \<Rightarrow> market_caps \<times> cache_file_st \<times> int list" where
  "get_coingecko_market_caps_st net writable now pages cache_ttl file =
     (case read_cache_st now cache_ttl file of
        Some cached \<Rightarrow> (cached, file, [])
      | None \<Rightarrow>
          (let (market_caps, reqs) = fetch_pages_st net Map.empty [1..pages] in
           (market_caps,
            if writable then Snapshot (Some now) (Some market_caps) else file,
            reqs)))"

subsection \<open>\<^verbatim>\<open>binance.py\<close>\<close>

text \<open>
  \<^verbatim>\<open>for item in data: symbol = item["symbol"].upper();
  market_caps[symbol] = item["market_cap"]\<close>: an item that is not an object, an absent
  key and a symbol that is not a string each raise, which ends the page; what was stored
  before stays.
\<close>

fun merge_page_bn :: "market_caps \<Rightarrow> page_item list \<Rightarrow> market_caps" where
  "merge_page_bn market_caps [] = market_caps"
| "merge_page_bn market_caps (NotObject # data) = market_caps"
| "merge_page_bn market_caps (Object item # data) =
     (case coin_symbol item of
        None \<Rightarrow> market_caps
      | Some JNotString \<Rightarrow> market_caps
      | Some (JString s) \<Rightarrow>
          (case coin_market_cap item of
             None \<Rightarrow> market_caps
           | Some v \<Rightarrow> merge_page_bn (market_caps(upper s \<mapsto> v)) data))"

text \<open>
  The page loop of \<^verbatim>\<open>binance.py\<close> has no \<^verbatim>\<open>break\<close>: its \<^verbatim>\<open>except\<close> branch
  prints the failure and the loop goes on to the next page.
\<close>

fun fetch_pages_bn :: "(int \<Rightarrow> page_response) \<Rightarrow> market_caps \<Rightarrow> int list
                       \<Rightarrow> market_caps \<times> int list" where
  "fetch_pages_bn net market_caps [] = (market_caps, [])"
| "fetch_pages_bn net market_caps (page # rest) =
     (let market_caps' =
        (case net page of
           PageFailed \<Rightarrow> market_caps
         | Page data \<Rightarrow> merge_page_bn market_caps data);
          (m, reqs) = fetch_pages_bn net market_caps' rest
      in (m, page # reqs))"

text \<open>
  The cache file of \<^verbatim>\<open>binance.py\<close>, when it exists: its modification time and the
  mapping it holds (\<open>None\<close> when it cannot be read as JSON). \<open>write_time\<close> is the
  modification time a write gives the file.
\<close>

record cache_file_bn =
  mtime :: real
  content :: "market_caps option"

definition read_cache_bn :: "real \<Rightarrow> real \<Rightarrow> cache_file_bn option \<Rightarrow> market_caps option" where
  "read_cache_bn now cache_ttl file =
     (case file of
        None \<Rightarrow> None
      | Some f \<Rightarrow> if now - mtime f < cache_ttl then content f else None)"

definition get_coingecko_market_caps_bn ::
  "(int \<Rightarrow> page_response) \<Rightarrow> bool \<Rightarrow> real \<Rightarrow> real \<Rightarrow> int \<Rightarrow> real \<Rightarrow> cache_file_bn option
     \<Rightarrow> market_caps \<times> cache_file_bn option \<times> int list" where
  "get_coingecko_market_caps_bn net writable now write_time pages cache_ttl file =
     (case read_cache_bn now cache_ttl file of
        Some cached \<Rightarrow> (cached, file, [])
      | None \<Rightarrow>
          (let (market_caps, reqs) = fetch_pages_bn net Map.empty [1..pages] in
           if market_caps \<noteq> Map.empty
           then (market_caps,
                 if writable then Some \<lparr>mtime = write_time, content = Some market_caps\<rparr>
                 else file,
                 reqs)
           else (case file of
                   None \<Rightarrow> (Map.empty, file, reqs)
                 | Some f \<Rightarrow>
                     (case content f of
                        None \<Rightarrow> (Map.empty, file, reqs)
                      | Some cached \<Rightarrow> (cached, file, reqs)))))"

section \<open>Vocabulary of the properties\<close>

text \<open>
  The items of a page: those the aggregator returned, and none when the request failed.
\<close>

definition page_records :: "(int \<Rightarrow> page_response) \<Rightarrow> int \<Rightarrow> page_item list" where
  "page_records net page = (case net page of PageFailed \<Rightarrow> [] | Page data \<Rightarrow> data)"

text \<open>
  The items at which the record loop of \<^verbatim>\<open>self_time.py\<close>, and that of
  \<^verbatim>\<open>binance.py\<close>, raises; and the items of a page that each loop gets through: those
  before the first one at which it raises.
\<close>

definition raises_st :: "page_item \<Rightarrow> bool" where
  "raises_st item = (case item of NotObject \<Rightarrow> True | Object c \<Rightarrow> symbol_or_empty c = None)"

definition raises_bn :: "page_item \<Rightarrow> bool" where
  "raises_bn item =
     (case item of
        NotObject \<Rightarrow> True
      | Object c \<Rightarrow>
          (case coin_symbol c of
             None \<Rightarrow> True
           | Some JNotString \<Rightarrow> True
           | Some (JString s) \<Rightarrow> coin_market_cap c = None))"

definition merged_records_st :: "(int \<Rightarrow> page_response) \<Rightarrow> int \<Rightarrow> page_item list" where
  "merged_records_st net page = takeWhile (\<lambda>item. \<not> raises_st item) (page_records net page)"

definition merged_records_bn :: "(int \<Rightarrow> page_response) \<Rightarrow> int \<Rightarrow> page_item list" where
  "merged_records_bn net page = takeWhile (\<lambda>item. \<not> raises_bn item) (page_records net page)"

text \<open>
  A page lets the loop of \<^verbatim>\<open>self_time.py\<close> go on to the next page when its request
  succeeds, it has at least one item, and no item raises.
\<close>

definition page_ok :: "(int \<Rightarrow> page_response) \<Rightarrow> int \<Rightarrow> bool" where
  "page_ok net page =
     (page_records net page \<noteq> [] \<and> \<not> list_ex raises_st (page_records net page))"

text \<open>The mapping \<^verbatim>\<open>market_caps\<close> of \<^verbatim>\<open>binance.py\<close> after its page loop.\<close>

definition fetched_bn :: "(int \<Rightarrow> page_response) \<Rightarrow> int \<Rightarrow> market_caps" where
  "fetched_bn net pages = fst (fetch_pages_bn net Map.empty [1..pages])"

subsection \<open>Sample inputs\<close>

text \<open>
  A host on UTC and an exchange that fails on 2025-06-03 (day 20242), returns one candle
  with close 2 and volume 30 for 2025-06-02 and no candle for any other day; the ticker
  request fails.
\<close>

definition sample_klines :: "kline_params \<Rightarrow> klines_response" where
  "sample_klines p =
     (if kp_startTime p = 1748908800000 then KlinesFailed
      else if kp_startTime p = 1748822400000 then Klines [\<lparr>close_price = 2, volume = 30\<rparr>]
      else Klines [])"

definition sample_env :: env where
  "sample_env = \<lparr>utcoffset = (\<lambda>_. 0), klines_api = sample_klines,
                  ticker_api = (\<lambda>_. TickerFailed)\<rparr>"

definition sample_volumes :: "nat \<Rightarrow> real" where
  "sample_volumes i = (if i = 1 then 60 else 0)"

text \<open>
  An aggregator whose page 1 lists \<open>btc\<close> with market cap 5 and \<open>eth\<close> with market cap
  0, whose page 2 fails and whose later pages list \<open>sol\<close> with market cap 7.
\<close>

definition sample_net :: "int \<Rightarrow> page_response" where
  "sample_net page =
     (if page = 1
      then Page [Object \<lparr>coin_symbol = Some (JString ''btc''), coin_market_cap = Some (JNum 5)\<rparr>,
                 Object \<lparr>coin_symbol = Some (JString ''eth''), coin_market_cap = Some (JNum 0)\<rparr>]
      else if page = 2 then PageFailed
      else Page [Object \<lparr>coin_symbol = Some (JString ''sol''), coin_market_cap = Some (JNum 7)\<rparr>])"

text \<open>
  An aggregator whose page 1 lists \<open>aaa\<close> with market cap 1 and then an item whose
  symbol is \<^verbatim>\<open>null\<close>, followed by \<open>bbb\<close> with market cap 2; every other page lists
  \<open>ccc\<close> with market cap 3.
\<close>

definition sample_net_null :: "int \<Rightarrow> page_response" where
  "sample_net_null page =
     (if page = 1
      then Page [Object \<lparr>coin_symbol = Some (JString ''aaa''), coin_market_cap = Some (JNum 1)\<rparr>,
                 Object \<lparr>coin_symbol = Some JNotString, coin_market_cap = Some (JNum 9)\<rparr>,
                 Object \<lparr>coin_symbol = Some (JString ''bbb''), coin_market_cap = Some (JNum 2)\<rparr>]
      else Page [Object \<lparr>coin_symbol = Some (JString ''ccc''), coin_market_cap = Some (JNum 3)\<rparr>])"

text \<open>A cache file of \<^verbatim>\<open>binance.py\<close> written at time 0, holding one entry.\<close>

definition sample_stale_bn :: cache_file_bn where
  "sample_stale_bn = \<lparr>mtime = 0, content = Some [''OLD'' \<mapsto> JNum 1]\<rparr>"

text \<open>Market caps with a zero entry, as a mapping of \<^verbatim>\<open>binance.py\<close> may hold.\<close>

definition sample_caps_zero :: market_caps where
  "sample_caps_zero = [''A'' \<mapsto> JNum 100, ''Z'' \<mapsto> JNum 0]"

text \<open>Two tickers of the all-symbols snapshot, and market caps for both.\<close>

definition sample_contracts :: "contract list" where
  "sample_contracts =
     [\<lparr>c_symbol = ''AUSDT'', quoteVolume = 50, lastPrice = 1, priceChangePercent = 0\<rparr>,
      \<lparr>c_symbol = ''BUSDT'', quoteVolume = 180, lastPrice = 2, priceChangePercent = 3\<rparr>]"

definition sample_caps :: market_caps where
  "sample_caps = [''A'' \<mapsto> JNum 100, ''B'' \<mapsto> JNum 200]"

section \<open>Properties\<close>

lemmas string_defs =
  base_of_def replace_def startswith_def endswith_def upper_def upper_char_def
  ascii_lowercase_def ascii_uppercase_def spec_base_ticker_def tag_of_def

subsection \<open>Base ticker\<close>

lemma distinct_letters: "distinct (ascii_uppercase @ ascii_lowercase)"
  unfolding ascii_lowercase_def ascii_uppercase_def by code_simp

lemma upper_char_idem: "upper_char (upper_char c) = upper_char c"
proof (cases "map_of (zip ascii_lowercase ascii_uppercase) c")
  case None
  then show ?thesis by (simp add: upper_char_def)
next
  case (Some u)
  then have "(c, u) \<in> set (zip ascii_lowercase ascii_uppercase)"
    by (rule map_of_SomeD)
  then have "u \<in> set ascii_uppercase"
    by (rule set_zip_rightD)
  then have "u \<notin> set ascii_lowercase"
    using distinct_letters by auto
  moreover have "length ascii_lowercase = length ascii_uppercase"
    by (simp add: ascii_lowercase_def ascii_uppercase_def)
  ultimately have "map_of (zip ascii_lowercase ascii_uppercase) u = None"
    by simp
  with Some show ?thesis by (simp add: upper_char_def)
qed

lemma upper_idem: "upper (upper s) = upper s"
  by (simp add: upper_def upper_char_idem)

lemma base_of_BTCUSDT: "base_of ''BTCUSDT'' = ''BTC'' \<and> spec_base_ticker ''BTCUSDT'' = ''BTC''"
  by (simp add: string_defs)

text \<open>
  Where \<open>"USDT"\<close> occurs in a symbol only as its suffix, removing every occurrence and
  stripping the suffix are the same.
\<close>

lemma replace_only_suffix:
  assumes "\<forall>i<length stem. \<not> startswith (drop i (stem @ ''USDT'')) ''USDT''"
  shows "replace (stem @ ''USDT'') ''USDT'' '''' = stem"
  using assms
proof (induction stem)
  case Nil
  then show ?case by (simp add: replace_def startswith_def)
next
  case (Cons c cs)
  from Cons.prems have head: "\<not> startswith (c # cs @ ''USDT'') ''USDT''"
    by auto
  have tail: "\<forall>i<length cs. \<not> startswith (drop i (cs @ ''USDT'')) ''USDT''"
  proof (intro allI impI)
    fix i assume "i < length cs"
    then have "Suc i < length (c # cs)" by simp
    with Cons.prems have "\<not> startswith (drop (Suc i) ((c # cs) @ ''USDT'')) ''USDT''"
      by blast
    then show "\<not> startswith (drop i (cs @ ''USDT'')) ''USDT''" by simp
  qed
  from Cons.IH [OF tail] head show ?case
    by (simp add: replace_def)
qed

lemma base_of_only_suffix:
  assumes "\<forall>i<length stem. \<not> startswith (drop i (stem @ ''USDT'')) ''USDT''"
  shows "base_of (stem @ ''USDT'') = upper stem
         \<and> spec_base_ticker (stem @ ''USDT'') = upper stem"
  using replace_only_suffix [OF assms] by (simp add: base_of_def spec_base_ticker_def)

text \<open>
  C9: for a contract symbol ending in \<open>"USDT"\<close> the derived base ticker is the symbol
  without its trailing \<open>"USDT"\<close>, upper-cased. The code removes every occurrence of
  \<open>"USDT"\<close>, not only the trailing one: for the symbol \<open>"XUSDTUSDT"\<close> (base asset
  \<open>XUSDT\<close>) it derives \<open>"X"\<close> where the stripped suffix gives \<open>"XUSDT"\<close>.
\<close>

theorem base_of_removes_inner_USDT:
  "endswith ''XUSDTUSDT'' ''USDT''
   \<and> base_of ''XUSDTUSDT'' = ''X''
   \<and> spec_base_ticker ''XUSDTUSDT'' = ''XUSDT''"
  by (simp add: string_defs)

subsection \<open>The window of the daily candle\<close>

lemma daily_volume_params_on_utc_host:
  assumes "utcoffset E date = 0" and "utcoffset E (date + 1) = 0"
  shows "daily_volume_params (utcoffset E) sy date =
           \<lparr>kp_symbol = sy, kp_interval = ''1d'', kp_startTime = date * 86400000,
            kp_endTime = (date + 1) * 86400000, kp_limit = 1\<rparr>"
  using assms by (simp add: daily_volume_params_def timestamp_def Let_def)

lemma daily_volume_params_span:
  "kp_endTime (daily_volume_params off sy date) - kp_startTime (daily_volume_params off sy date)
     = (86400 - (off (date + 1) - off date)) * 1000"
  by (simp add: daily_volume_params_def timestamp_def Let_def algebra_simps)

text \<open>
  C10: \<^verbatim>\<open>get_daily_volume\<close> asks for one daily candle whose window starts and ends at
  the UTC midnights bounding the date. The code takes the timestamps of the local
  midnights of the host: on a host eight hours ahead of UTC, for \<open>"BTCUSDT"\<close> and
  2025-06-03 (day 20242, UTC midnight at 1748908800000 ms), it sends the start
  1748880000000 (2025-06-02 16:00 UTC) and the end 1748966400000 (2025-06-03 16:00 UTC).
\<close>

theorem daily_volume_params_local_midnight:
  "days_from_civil 2025 6 3 = 20242
   \<and> (20242::int) * 86400 * 1000 = 1748908800000
   \<and> daily_volume_params (\<lambda>_. 28800) ''BTCUSDT'' 20242
       = \<lparr>kp_symbol = ''BTCUSDT'', kp_interval = ''1d'', kp_startTime = 1748880000000,
          kp_endTime = 1748966400000, kp_limit = 1\<rparr>"
  by (simp add: days_from_civil_def daily_volume_params_def timestamp_def Let_def)

subsection \<open>The scan over the trailing days\<close>

lemma upt_split: "j < n \<Longrightarrow> [0..<n] = [0..<j] @ j # [Suc j..<n]"
proof -
  assume "j < n"
  then have "[0..<n] = [0..<j] @ [j..<n]"
    using upt_add_eq_append [of 0 j "n - j"] by simp
  with \<open>j < n\<close> show ?thesis by (simp add: upt_conv_Cons)
qed

lemma scan_st_none:
  assumes "mc \<noteq> 0" and "\<forall>i\<in>set is. \<not> day_volume E sy date i / mc > th"
  shows "scan_st E sy base mc date th is = Inr None"
  using assms by (induction "is") (simp_all add: Let_def)

lemma scan_st_first:
  assumes "mc \<noteq> 0" and "\<forall>i\<in>set xs. \<not> day_volume E sy date i / mc > th"
    and "day_volume E sy date j / mc > th"
  shows "scan_st E sy base mc date th (xs @ j # ys) =
         Inr (Some (make_result E sy base mc (day_volume E sy date j) (day_volume E sy date j / mc)))"
  using assms by (induction xs) (simp_all add: Let_def)

lemma scan_50_zero: "scan_50 E sy base 0 date th is = Inr None"
  by (induction "is") (simp_all add: Let_def)

lemma scan_50_none:
  assumes "\<forall>i\<in>set is. \<not> day_volume E sy date i / mc > th"
  shows "scan_50 E sy base mc date th is = Inr None"
proof (cases "mc = 0")
  case True
  then show ?thesis by (simp add: scan_50_zero)
next
  case False
  with assms show ?thesis by (induction "is") (simp_all add: Let_def)
qed

lemma scan_50_first:
  assumes "mc \<noteq> 0" and "\<forall>i\<in>set xs. \<not> day_volume E sy date i / mc > th"
    and "day_volume E sy date j / mc > th"
  shows "scan_50 E sy base mc date th (xs @ j # ys) =
         Inr (Some (make_result E sy base mc (day_volume E sy date j) (day_volume E sy date j / mc)))"
  using assms by (induction xs) (simp_all add: Let_def)

lemma day_volume_eq:
  assumes "get_daily_volume E sy (date - int i) = Inr (vol i)
           \<or> (get_daily_volume E sy (date - int i) = Inl () \<and> vol i = 0)"
  shows "day_volume E sy date i = vol i"
  using assms by (auto simp: day_volume_def)

text \<open>
  C3: for an eligible symbol (its market cap is not zero) the scan visits the offsets
  \<open>0, ..., days - 1\<close> back from the target date. \<open>vol i\<close> is the volume of the day at
  offset \<open>i\<close>: what the fetch returned, and \<open>0\<close> when the fetch failed. If \<open>j\<close> is
  the first offset of the window whose ratio \<open>vol j / mc\<close> is greater than the
  threshold, the call returns the one result of that day; a failed fetch at an earlier
  offset did not stop the scan. If no offset of the window has such a ratio, the call
  returns no result. Both hold for \<^verbatim>\<open>self_time.py\<close> and \<^verbatim>\<open>self_time_50bilile.py\<close>.
\<close>

theorem check_symbol_first_qualifying_day:
  assumes mc: "mc \<noteq> 0"
    and vol: "\<forall>i<nat days.
                get_daily_volume E sy (date - int i) = Inr (vol i)
                \<or> (get_daily_volume E sy (date - int i) = Inl () \<and> vol i = 0)"
  shows "(j < nat days \<and> vol j / mc > threshold \<and> (\<forall>i<j. \<not> vol i / mc > threshold)
            \<longrightarrow> check_symbol_volume_ratio_st E sy base mc date days threshold
                  = Inr (Some (make_result E sy base mc (vol j) (vol j / mc)))
              \<and> check_symbol_volume_ratio_50 E sy base mc date days threshold
                  = Inr (Some (make_result E sy base mc (vol j) (vol j / mc))))
       \<and> ((\<forall>i<nat days. \<not> vol i / mc > threshold)
            \<longrightarrow> check_symbol_volume_ratio_st E sy base mc date days threshold = Inr None
              \<and> check_symbol_volume_ratio_50 E sy base mc date days threshold = Inr None)"
proof (intro conjI impI)
  have dv: "day_volume E sy date i = vol i" if "i < nat days" for i
    using vol that by (intro day_volume_eq) simp
  {
    assume j: "j < nat days \<and> vol j / mc > threshold \<and> (\<forall>i<j. \<not> vol i / mc > threshold)"
    then have split: "[0..<nat days] = [0..<j] @ j # [Suc j..<nat days]"
      by (simp add: upt_split)
    have before: "\<forall>i\<in>set [0..<j]. \<not> day_volume E sy date i / mc > threshold"
      using j dv by auto
    have at: "day_volume E sy date j / mc > threshold"
      using j dv by auto
    show "check_symbol_volume_ratio_st E sy base mc date days threshold
            = Inr (Some (make_result E sy base mc (vol j) (vol j / mc)))"
      unfolding check_symbol_volume_ratio_st_def split
      using scan_st_first [OF mc before at] j dv by simp
    show "check_symbol_volume_ratio_50 E sy base mc date days threshold
            = Inr (Some (make_result E sy base mc (vol j) (vol j / mc)))"
      unfolding check_symbol_volume_ratio_50_def split
      using scan_50_first [OF mc before at] j dv by simp
  }
  {
    assume none: "\<forall>i<nat days. \<not> vol i / mc > threshold"
    then have all: "\<forall>i\<in>set [0..<nat days]. \<not> day_volume E sy date i / mc > threshold"
      using dv by auto
    show "check_symbol_volume_ratio_st E sy base mc date days threshold = Inr None"
      unfolding check_symbol_volume_ratio_st_def using scan_st_none [OF mc all] .
    show "check_symbol_volume_ratio_50 E sy base mc date days threshold = Inr None"
      unfolding check_symbol_volume_ratio_50_def using scan_50_none [OF all] .
  }
qed


lemmas sample_eval =
  get_daily_volume_def sample_env_def sample_klines_def daily_volume_params_def
  timestamp_def sample_volumes_def make_result_def Let_def

theorem check_symbol_first_qualifying_day_witness:
  "check_symbol_volume_ratio_st sample_env ''AUSDT'' ''A'' 100 20242 3 (1/2)
     = Inr (Some \<lparr>symbol = ''AUSDT'', volume_usdt = 60, market_cap = 100, ratio = 3/5,
                  price = 0, change = 0, tag = ''A/USDT:USDT''\<rparr>)
   \<and> check_symbol_volume_ratio_50 sample_env ''AUSDT'' ''A'' 100 20242 3 (1/2)
     = Inr (Some \<lparr>symbol = ''AUSDT'', volume_usdt = 60, market_cap = 100, ratio = 3/5,
                  price = 0, change = 0, tag = ''A/USDT:USDT''\<rparr>)
   \<and> check_symbol_volume_ratio_st sample_env ''AUSDT'' ''A'' 100 20242 1 (1/2) = Inr None
   \<and> check_symbol_volume_ratio_50 sample_env ''AUSDT'' ''A'' 100 20242 1 (1/2) = Inr None"
proof -
  have mc: "(100::real) \<noteq> 0" by simp
  have day: "get_daily_volume sample_env ''AUSDT'' (20242 - int i) = Inr (sample_volumes i)
             \<or> (get_daily_volume sample_env ''AUSDT'' (20242 - int i) = Inl ()
                 \<and> sample_volumes i = 0)" if "i < 3" for i
  proof -
    from that consider "i = 0" | "i = 1" | "i = 2" by linarith
    then show ?thesis by cases (simp_all add: sample_eval)
  qed
  have vol3: "\<forall>i<nat 3. get_daily_volume sample_env ''AUSDT'' (20242 - int i) = Inr (sample_volumes i)
             \<or> (get_daily_volume sample_env ''AUSDT'' (20242 - int i) = Inl ()
                 \<and> sample_volumes i = 0)"
  proof (intro allI impI)
    fix i :: nat
    assume "i < nat 3"
    then have "i < 3" by simp
    then show "get_daily_volume sample_env ''AUSDT'' (20242 - int i) = Inr (sample_volumes i)
             \<or> (get_daily_volume sample_env ''AUSDT'' (20242 - int i) = Inl ()
                 \<and> sample_volumes i = 0)"
      by (rule day)
  qed
  have vol1: "\<forall>i<nat 1. get_daily_volume sample_env ''AUSDT'' (20242 - int i) = Inr (sample_volumes i)
             \<or> (get_daily_volume sample_env ''AUSDT'' (20242 - int i) = Inl ()
                 \<and> sample_volumes i = 0)"
  proof (intro allI impI)
    fix i :: nat
    assume "i < nat 1"
    then have "i < 3" by simp
    then show "get_daily_volume sample_env ''AUSDT'' (20242 - int i) = Inr (sample_volumes i)
             \<or> (get_daily_volume sample_env ''AUSDT'' (20242 - int i) = Inl ()
                 \<and> sample_volumes i = 0)"
      by (rule day)
  qed
  have first: "(1::nat) < nat 3 \<and> sample_volumes 1 / 100 > 1/2
               \<and> (\<forall>i<1. \<not> sample_volumes i / 100 > 1/2)"
    by (simp add: sample_volumes_def)
  have none: "\<forall>i<nat 1. \<not> sample_volumes i / 100 > 1/2"
    by (simp add: sample_volumes_def)
  show ?thesis
    using check_symbol_first_qualifying_day [OF mc vol3, of 1 "1/2" "''A''"] first
      check_symbol_first_qualifying_day [OF mc vol1, of 0 "1/2" "''A''"] none
    by (simp add: sample_eval tag_of_def)
qed

subsection \<open>Zero market cap in the scan\<close>

lemma check_symbol_volume_ratio_50_never_raises:
  "check_symbol_volume_ratio_50 E sy base mc date days threshold \<noteq> Inl e"
proof -
  have "scan_50 E sy base mc date threshold is \<noteq> Inl e" for "is"
    by (induction "is") (auto simp: Let_def)
  then show ?thesis by (simp add: check_symbol_volume_ratio_50_def)
qed

lemma check_symbol_volume_ratio_50_zero_market_cap:
  "check_symbol_volume_ratio_50 E sy base 0 date days threshold = Inr None"
  by (simp add: check_symbol_volume_ratio_50_def scan_50_zero)

lemma check_symbol_volume_ratio_st_zero_market_cap:
  "check_symbol_volume_ratio_st E sy base 0 date 1 threshold = Inl ZeroDivisionError"
  by (simp add: check_symbol_volume_ratio_st_def Let_def)

lemma scan_st_returns:
  "mc \<noteq> 0 \<Longrightarrow> \<exists>r. scan_st E sy base mc date threshold is = Inr r"
  by (induction "is") (auto simp: Let_def)

lemma scan_50_returns: "\<exists>r. scan_50 E sy base mc date threshold is = Inr r"
  by (induction "is") (auto simp: Let_def)

lemma truthy_number_nonzero: "truthy_number v = Some mc \<Longrightarrow> mc \<noteq> 0"
  by (auto simp: truthy_number_def split: option.splits jnum.splits if_splits)

lemma submit_st_returns:
  "f \<in> set (submit_st E caps date days threshold symbols) \<Longrightarrow> \<exists>r. f = Inr r"
proof (induction symbols)
  case Nil
  then show ?case by simp
next
  case (Cons sy symbols)
  show ?case
  proof (cases "base_of sy \<in> exclude_symbols")
    case True
    with Cons show ?thesis by simp
  next
    case False
    show ?thesis
    proof (cases "truthy_number (caps (base_of sy))")
      case None
      with False Cons show ?thesis by simp
    next
      case (Some mc)
      then have "mc \<noteq> 0" by (rule truthy_number_nonzero)
      then have "\<exists>r. check_symbol_volume_ratio_st E sy (base_of sy) mc date days threshold = Inr r"
        unfolding check_symbol_volume_ratio_st_def by (rule scan_st_returns)
      with Some False Cons show ?thesis by auto
    qed
  qed
qed

lemma submit_50_returns:
  "f \<in> set (submit_50 E caps date days threshold max_market_cap symbols) \<Longrightarrow> \<exists>r. f = Inr r"
proof (induction symbols)
  case Nil
  then show ?case by simp
next
  case (Cons sy symbols)
  have "\<exists>r. check_symbol_volume_ratio_50 E sy (base_of sy) mc date days threshold = Inr r" for mc
    unfolding check_symbol_volume_ratio_50_def by (rule scan_50_returns)
  with Cons show ?case
    by (auto simp: Let_def split: if_splits option.splits)
qed

lemma collect_results_returns:
  "(\<And>f. f \<in> set fs \<Longrightarrow> \<exists>r. f = Inr r) \<Longrightarrow> \<exists>rs. collect_results fs = Inr rs"
proof (induction fs)
  case Nil
  then show ?case by simp
next
  case (Cons f fs)
  from Cons.prems obtain res where f: "f = Inr res" by auto
  from Cons obtain rs where "collect_results fs = Inr rs" by auto
  with f show ?case by simp
qed

text \<open>
  The claim C7 as it is written (with a zero market cap the day-scan loop skips the ratio
  in every variant, also when the eligibility filter is bypassed) fails for the loop of
  \<^verbatim>\<open>self_time.py\<close>, which has no guard: called with market cap \<open>0\<close> and one day to
  scan, \<^verbatim>\<open>_check_symbol_volume_ratio\<close> raises \<^verbatim>\<open>ZeroDivisionError\<close>.
\<close>

theorem zero_market_cap_counterexample:
  "check_symbol_volume_ratio_st sample_env ''XUSDT'' ''X'' 0 20242 1 (7/10)
     = Inl ZeroDivisionError"
  by (rule check_symbol_volume_ratio_st_zero_market_cap)

text \<open>
  C7, as the code has it. The loop of \<^verbatim>\<open>self_time_50bilile.py\<close> skips the ratio when
  the market cap is zero: its helper returns no result for a zero market cap and never
  raises, whatever it is called with. The helper of \<^verbatim>\<open>self_time.py\<close> does not raise
  when the market cap is not zero, and its only caller, the screener, passes it no zero
  market cap (the eligibility filter): no run of either screener divides by zero, for
  every order of completion that yields the submitted futures.
\<close>

theorem zero_market_cap_never_divided:
  "check_symbol_volume_ratio_50 E sy base 0 date days threshold = Inr None
   \<and> check_symbol_volume_ratio_50 E sy base mc date days threshold \<noteq> Inl e
   \<and> (mc \<noteq> 0 \<longrightarrow> check_symbol_volume_ratio_st E sy base mc date days threshold \<noteq> Inl e)
   \<and> ((\<forall>fs. set (as_completed fs) \<subseteq> set fs) \<longrightarrow>
        get_high_volume_to_marketcap_contracts_st E as_completed caps symbols date days
          threshold limit \<noteq> Inl e
        \<and> get_high_volume_to_marketcap_contracts_50 E as_completed caps symbols date days
            threshold limit max_market_cap \<noteq> Inl e)"
proof -
  have helper_st: "mc \<noteq> 0 \<longrightarrow>
      check_symbol_volume_ratio_st E sy base mc date days threshold \<noteq> Inl e"
    using scan_st_returns [of mc E sy base date threshold "[0..<nat days]"]
    by (auto simp: check_symbol_volume_ratio_st_def)
  have screeners: "(\<forall>fs. set (as_completed fs) \<subseteq> set fs) \<longrightarrow>
        get_high_volume_to_marketcap_contracts_st E as_completed caps symbols date days
          threshold limit \<noteq> Inl e
        \<and> get_high_volume_to_marketcap_contracts_50 E as_completed caps symbols date days
            threshold limit max_market_cap \<noteq> Inl e"
  proof
    assume sub: "\<forall>fs. set (as_completed fs) \<subseteq> set fs"
    have st: "\<exists>rs. collect_results (as_completed (submit_st E caps date days threshold symbols))
                = Inr rs"
    proof (rule collect_results_returns)
      fix f
      assume "f \<in> set (as_completed (submit_st E caps date days threshold symbols))"
      with sub have "f \<in> set (submit_st E caps date days threshold symbols)" by blast
      then show "\<exists>r. f = Inr r" by (rule submit_st_returns)
    qed
    have fifty: "\<exists>rs. collect_results
                   (as_completed (submit_50 E caps date days threshold max_market_cap symbols))
                = Inr rs"
    proof (rule collect_results_returns)
      fix f
      assume "f \<in> set (as_completed (submit_50 E caps date days threshold max_market_cap symbols))"
      with sub have "f \<in> set (submit_50 E caps date days threshold max_market_cap symbols)"
        by blast
      then show "\<exists>r. f = Inr r" by (rule submit_50_returns)
    qed
    from st fifty show "get_high_volume_to_marketcap_contracts_st E as_completed caps symbols
          date days threshold limit \<noteq> Inl e
        \<and> get_high_volume_to_marketcap_contracts_50 E as_completed caps symbols date days
            threshold limit max_market_cap \<noteq> Inl e"
      by (auto simp: get_high_volume_to_marketcap_contracts_st_def
          get_high_volume_to_marketcap_contracts_50_def)
  qed
  show ?thesis
    by (rule conjI [OF check_symbol_volume_ratio_50_zero_market_cap
          conjI [OF check_symbol_volume_ratio_50_never_raises conjI [OF helper_st screeners]]])
qed

theorem zero_market_cap_never_divided_witness:
  "(100::real) \<noteq> 0
   \<and> check_symbol_volume_ratio_st sample_env ''AUSDT'' ''A'' 100 20242 3 (1/2)
       \<noteq> Inl ZeroDivisionError
   \<and> get_high_volume_to_marketcap_contracts_st sample_env (\<lambda>fs. fs) sample_caps_zero
       [''AUSDT'', ''ZUSDT''] 20242 3 (1/2) 5
       = Inr [\<lparr>symbol = ''AUSDT'', volume_usdt = 60, market_cap = 100, ratio = 3/5,
                price = 0, change = 0, tag = ''A/USDT:USDT''\<rparr>]
   \<and> get_high_volume_to_marketcap_contracts_st sample_env (\<lambda>fs. fs) sample_caps_zero
       [''AUSDT'', ''ZUSDT''] 20242 3 (1/2) 5 \<noteq> Inl ZeroDivisionError
   \<and> check_symbol_volume_ratio_50 sample_env ''ZUSDT'' ''Z'' 0 20242 3 (1/2) = Inr None"
proof -
  have mc: "(100::real) \<noteq> 0" by simp
  have sub: "\<forall>fs :: (py_error + result option) list. set ((\<lambda>fs. fs) fs) \<subseteq> set fs" by simp
  have run: "get_high_volume_to_marketcap_contracts_st sample_env (\<lambda>fs. fs) sample_caps_zero
       [''AUSDT'', ''ZUSDT''] 20242 3 (1/2) 5
       = Inr [\<lparr>symbol = ''AUSDT'', volume_usdt = 60, market_cap = 100, ratio = 3/5,
                price = 0, change = 0, tag = ''A/USDT:USDT''\<rparr>]"
    by (simp add: get_high_volume_to_marketcap_contracts_st_def sample_caps_zero_def
        truthy_number_def exclude_symbols_def slice_to_def sort_reverse_def
        check_symbol_volume_ratio_st_def day_volume_def sample_eval string_defs upt_rec)
  from mc sub run
    zero_market_cap_never_divided [of sample_env "''AUSDT''" "''A''" 20242 3 "1/2" 100
      ZeroDivisionError "\<lambda>fs. fs" sample_caps_zero "[''AUSDT'', ''ZUSDT'']" 5]
    zero_market_cap_never_divided [of sample_env "''ZUSDT''" "''Z''" 20242 3 "1/2"]
  show ?thesis by simp
qed

subsection \<open>The threshold comparison\<close>

lemma scan_st_strict:
  "scan_st E sy base mc date threshold is = Inr (Some r) \<Longrightarrow> ratio r > threshold"
  by (induction "is") (auto simp: Let_def make_result_def split: if_splits prod.splits)

lemma scan_50_strict:
  "scan_50 E sy base mc date threshold is = Inr (Some r) \<Longrightarrow> ratio r > threshold"
  by (induction "is") (auto simp: Let_def make_result_def split: if_splits prod.splits)


text \<open>
  C1: the threshold comparison is strict in every screener variant. The two scans above
  are strict; \<^verbatim>\<open>binance.py\<close> compares with \<^verbatim>\<open>>=\<close>: a contract with quote volume 50
  and market cap 100 has ratio \<open>1/2\<close>, and with threshold \<open>1/2\<close> it is in the results.
\<close>

theorem binance_includes_ratio_equal_to_threshold:
  "get_high_volume_to_marketcap_contracts_bn [''A'' \<mapsto> JNum 100]
     [\<lparr>c_symbol = ''AUSDT'', quoteVolume = 50, lastPrice = 1, priceChangePercent = 0\<rparr>]
     (1/2) 200
   = [\<lparr>symbol = ''AUSDT'', volume_usdt = 50, market_cap = 100, ratio = 1/2, price = 1,
       change = 0, tag = ''A/USDT:USDT''\<rparr>]"
  by (simp add: get_high_volume_to_marketcap_contracts_bn_def get_all_usdt_contracts_def
      string_defs truthy_number_def exclude_symbols_def slice_to_def sort_reverse_def Let_def)

subsection \<open>What a refetch requests and stores\<close>

lemmas cache_eval =
  get_coingecko_market_caps_st_def get_coingecko_market_caps_bn_def read_cache_st_def
  read_cache_bn_def sample_net_def sample_net_null_def page_records_def page_ok_def
  merged_records_st_def merged_records_bn_def raises_st_def raises_bn_def fetched_bn_def
  symbol_or_empty_def truthy_number_def Let_def

lemma upper_eq_Nil: "(upper s = []) = (s = [])"
  by (simp add: upper_def)

lemma merge_page_st_step:
  assumes "\<not> raises_st item"
  shows "\<exists>mc'. \<forall>data. merge_page_st mc (item # data) = merge_page_st mc' data"
proof (cases item)
  case NotObject
  with assms show ?thesis by (simp add: raises_st_def)
next
  case (Object c)
  with assms obtain s where s: "symbol_or_empty c = Some s"
    by (auto simp: raises_st_def)
  show ?thesis
  proof (cases "upper s \<noteq> [] \<and> truthy_number (coin_market_cap c) \<noteq> None")
    case True
    then obtain x where "truthy_number (coin_market_cap c) = Some x" by auto
    with True Object s
    have "\<forall>data. merge_page_st mc (item # data) = merge_page_st (mc(upper s \<mapsto> JNum x)) data"
      by (simp add: Let_def)
    then show ?thesis by blast
  next
    case False
    with Object s have "\<forall>data. merge_page_st mc (item # data) = merge_page_st mc data"
      by (auto simp: Let_def split: option.splits)
    then show ?thesis by blast
  qed
qed

lemma merge_page_st_raises:
  assumes "raises_st item"
  shows "merge_page_st mc (item # data) = (mc, True)"
proof (cases item)
  case NotObject
  then show ?thesis by simp
next
  case (Object c)
  with assms have "symbol_or_empty c = None" by (simp add: raises_st_def)
  with Object show ?thesis by simp
qed

lemma merge_page_st_takeWhile:
  "merge_page_st mc data
     = (fst (merge_page_st mc (takeWhile (\<lambda>item. \<not> raises_st item) data)),
        list_ex raises_st data)"
proof (induction data arbitrary: mc)
  case Nil
  then show ?case by simp
next
  case (Cons item data)
  show ?case
  proof (cases "raises_st item")
    case True
    then show ?thesis by (simp add: merge_page_st_raises)
  next
    case False
    then obtain mc' where step: "\<And>data. merge_page_st mc (item # data) = merge_page_st mc' data"
      using merge_page_st_step [of item mc] by blast
    have "merge_page_st mc (item # data)
            = (fst (merge_page_st mc' (takeWhile (\<lambda>item. \<not> raises_st item) data)),
               list_ex raises_st data)"
      unfolding step by (rule Cons.IH)
    also have "fst (merge_page_st mc' (takeWhile (\<lambda>item. \<not> raises_st item) data))
                 = fst (merge_page_st mc (item # takeWhile (\<lambda>item. \<not> raises_st item) data))"
      unfolding step ..
    finally show ?thesis using False by simp
  qed
qed

lemma fetch_pages_st_char:
  "fetch_pages_st net mc ps =
     (foldl (\<lambda>m d. fst (merge_page_st m d)) mc
        (map (merged_records_st net)
           (takeWhile (page_ok net) ps @ take 1 (dropWhile (page_ok net) ps))),
      takeWhile (page_ok net) ps @ take 1 (dropWhile (page_ok net) ps))"
proof (induction ps arbitrary: mc)
  case Nil
  then show ?case by simp
next
  case (Cons p ps)
  show ?case
  proof (cases "net p")
    case PageFailed
    then show ?thesis by (simp add: page_ok_def page_records_def merged_records_st_def)
  next
    case (Page data)
    show ?thesis
    proof (cases "data = []")
      case True
      with Page show ?thesis by (simp add: page_ok_def page_records_def merged_records_st_def)
    next
      case False
      have split: "merge_page_st mc data
                     = (fst (merge_page_st mc (merged_records_st net p)), list_ex raises_st data)"
        using Page merge_page_st_takeWhile [of mc data]
        by (simp add: merged_records_st_def page_records_def)
      show ?thesis
      proof (cases "list_ex raises_st data")
        case True
        with Page False split show ?thesis
          by (simp add: page_ok_def page_records_def)
      next
        case False
        with Page \<open>data \<noteq> []\<close> split Cons.IH show ?thesis
          by (simp add: page_ok_def page_records_def)
      qed
    qed
  qed
qed

lemma merge_page_bn_step:
  assumes "\<not> raises_bn item"
  shows "\<exists>mc'. \<forall>data. merge_page_bn mc (item # data) = merge_page_bn mc' data"
proof (cases item)
  case NotObject
  with assms show ?thesis by (simp add: raises_bn_def)
next
  case (Object c)
  with assms obtain s v where "coin_symbol c = Some (JString s)" "coin_market_cap c = Some v"
    by (auto simp: raises_bn_def split: option.splits jsymbol.splits)
  with Object
  have "\<forall>data. merge_page_bn mc (item # data) = merge_page_bn (mc(upper s \<mapsto> v)) data"
    by simp
  then show ?thesis by blast
qed

lemma merge_page_bn_raises:
  assumes "raises_bn item"
  shows "merge_page_bn mc (item # data) = mc"
proof (cases item)
  case NotObject
  then show ?thesis by simp
next
  case (Object c)
  with assms show ?thesis
    by (auto simp: raises_bn_def split: option.splits jsymbol.splits)
qed

lemma merge_page_bn_takeWhile:
  "merge_page_bn mc data = merge_page_bn mc (takeWhile (\<lambda>item. \<not> raises_bn item) data)"
proof (induction data arbitrary: mc)
  case Nil
  then show ?case by simp
next
  case (Cons item data)
  show ?case
  proof (cases "raises_bn item")
    case True
    then show ?thesis by (simp add: merge_page_bn_raises)
  next
    case False
    then obtain mc' where step: "\<And>data. merge_page_bn mc (item # data) = merge_page_bn mc' data"
      using merge_page_bn_step [of item mc] by blast
    have "merge_page_bn mc (item # data)
            = merge_page_bn mc' (takeWhile (\<lambda>item. \<not> raises_bn item) data)"
      unfolding step by (rule Cons.IH)
    also have "\<dots> = merge_page_bn mc (item # takeWhile (\<lambda>item. \<not> raises_bn item) data)"
      unfolding step ..
    finally show ?thesis using False by simp
  qed
qed

lemma fetch_pages_bn_char:
  "fetch_pages_bn net mc ps = (foldl merge_page_bn mc (map (merged_records_bn net) ps), ps)"
proof (induction ps arbitrary: mc)
  case Nil
  then show ?case by simp
next
  case (Cons p ps)
  have "(case net p of PageFailed \<Rightarrow> mc | Page data \<Rightarrow> merge_page_bn mc data)
          = merge_page_bn mc (merged_records_bn net p)"
    using merge_page_bn_takeWhile
    by (cases "net p") (simp_all add: merged_records_bn_def page_records_def)
  with Cons.IH show ?case by simp
qed

lemma merge_page_st_inv:
  assumes "\<forall>k v. mc k = Some v \<longrightarrow> P k v"
    and "\<forall>c s x. Object c \<in> set data \<longrightarrow> coin_symbol c = Some (JString s) \<longrightarrow> s \<noteq> [] \<longrightarrow>
            coin_market_cap c = Some (JNum x) \<longrightarrow> x \<noteq> 0 \<longrightarrow> P (upper s) (JNum x)"
  shows "\<forall>k v. fst (merge_page_st mc data) k = Some v \<longrightarrow> P k v"
  using assms
proof (induction data arbitrary: mc)
  case Nil
  then show ?case by simp
next
  case (Cons item data)
  have rest: "\<forall>c s x. Object c \<in> set data \<longrightarrow> coin_symbol c = Some (JString s) \<longrightarrow> s \<noteq> [] \<longrightarrow>
            coin_market_cap c = Some (JNum x) \<longrightarrow> x \<noteq> 0 \<longrightarrow> P (upper s) (JNum x)"
    using Cons.prems(2) by simp
  show ?case
  proof (cases "raises_st item")
    case True
    then show ?thesis using Cons.prems(1) by (simp add: merge_page_st_raises)
  next
    case False
    then obtain c s where item: "item = Object c" and s: "symbol_or_empty c = Some s"
      by (cases item) (auto simp: raises_st_def)
    show ?thesis
    proof (cases "upper s \<noteq> [] \<and> truthy_number (coin_market_cap c) \<noteq> None")
      case True
      then obtain x where x: "truthy_number (coin_market_cap c) = Some x" by auto
      then have cap: "coin_market_cap c = Some (JNum x)" "x \<noteq> 0"
        by (auto simp: truthy_number_def split: option.splits jnum.splits if_splits)
      from True have "s \<noteq> []" by (simp add: upper_eq_Nil)
      with s have sym: "coin_symbol c = Some (JString s)"
        by (auto simp: symbol_or_empty_def split: option.splits jsymbol.splits)
      have "P (upper s) (JNum x)"
        using Cons.prems(2) item sym \<open>s \<noteq> []\<close> cap by simp
      then have a: "\<forall>k v. (mc(upper s \<mapsto> JNum x)) k = Some v \<longrightarrow> P k v"
        using Cons.prems(1) by simp
      have eq: "merge_page_st mc (item # data) = merge_page_st (mc(upper s \<mapsto> JNum x)) data"
        using item s x True by (simp add: Let_def)
      show ?thesis unfolding eq by (rule Cons.IH [OF a rest])
    next
      case False
      then have eq: "merge_page_st mc (item # data) = merge_page_st mc data"
        using item s by (auto simp: Let_def split: option.splits)
      show ?thesis unfolding eq by (rule Cons.IH [OF Cons.prems(1) rest])
    qed
  qed
qed

lemma foldl_merge_page_st_inv:
  assumes "\<forall>k v. mc k = Some v \<longrightarrow> P k v"
    and "\<forall>data\<in>set ds. \<forall>c s x. Object c \<in> set data \<longrightarrow> coin_symbol c = Some (JString s) \<longrightarrow>
            s \<noteq> [] \<longrightarrow> coin_market_cap c = Some (JNum x) \<longrightarrow> x \<noteq> 0 \<longrightarrow> P (upper s) (JNum x)"
  shows "\<forall>k v. foldl (\<lambda>m d. fst (merge_page_st m d)) mc ds k = Some v \<longrightarrow> P k v"
  using assms
proof (induction ds arbitrary: mc)
  case Nil
  then show ?case by simp
next
  case (Cons d ds)
  have d: "\<forall>c s x. Object c \<in> set d \<longrightarrow> coin_symbol c = Some (JString s) \<longrightarrow> s \<noteq> [] \<longrightarrow>
            coin_market_cap c = Some (JNum x) \<longrightarrow> x \<noteq> 0 \<longrightarrow> P (upper s) (JNum x)"
    using Cons.prems(2) by simp
  have ds: "\<forall>data\<in>set ds. \<forall>c s x. Object c \<in> set data \<longrightarrow> coin_symbol c = Some (JString s) \<longrightarrow>
            s \<noteq> [] \<longrightarrow> coin_market_cap c = Some (JNum x) \<longrightarrow> x \<noteq> 0 \<longrightarrow> P (upper s) (JNum x)"
    using Cons.prems(2) by simp
  have "\<forall>k v. fst (merge_page_st mc d) k = Some v \<longrightarrow> P k v"
    by (rule merge_page_st_inv [OF Cons.prems(1) d])
  then have "\<forall>k v. foldl (\<lambda>m d. fst (merge_page_st m d)) (fst (merge_page_st mc d)) ds k = Some v
               \<longrightarrow> P k v"
    by (rule Cons.IH [OF _ ds])
  then show ?case by simp
qed

lemma merge_page_bn_inv:
  assumes "\<forall>k v. mc k = Some v \<longrightarrow> P k v"
    and "\<forall>c s v. Object c \<in> set data \<longrightarrow> coin_symbol c = Some (JString s) \<longrightarrow>
            coin_market_cap c = Some v \<longrightarrow> P (upper s) v"
  shows "\<forall>k v. merge_page_bn mc data k = Some v \<longrightarrow> P k v"
  using assms
proof (induction data arbitrary: mc)
  case Nil
  then show ?case by simp
next
  case (Cons item data)
  have rest: "\<forall>c s v. Object c \<in> set data \<longrightarrow> coin_symbol c = Some (JString s) \<longrightarrow>
            coin_market_cap c = Some v \<longrightarrow> P (upper s) v"
    using Cons.prems(2) by simp
  show ?case
  proof (cases "raises_bn item")
    case True
    then show ?thesis using Cons.prems(1) by (simp add: merge_page_bn_raises)
  next
    case False
    then obtain c s v where item: "item = Object c"
      and sym: "coin_symbol c = Some (JString s)" and cap: "coin_market_cap c = Some v"
      by (cases item) (auto simp: raises_bn_def split: option.splits jsymbol.splits)
    have "P (upper s) v" using Cons.prems(2) item sym cap by simp
    then have a: "\<forall>k v'. (mc(upper s \<mapsto> v)) k = Some v' \<longrightarrow> P k v'"
      using Cons.prems(1) by simp
    have eq: "merge_page_bn mc (item # data) = merge_page_bn (mc(upper s \<mapsto> v)) data"
      using item sym cap by simp
    show ?thesis unfolding eq by (rule Cons.IH [OF a rest])
  qed
qed

lemma foldl_merge_page_bn_inv:
  assumes "\<forall>k v. mc k = Some v \<longrightarrow> P k v"
    and "\<forall>data\<in>set ds. \<forall>c s v. Object c \<in> set data \<longrightarrow> coin_symbol c = Some (JString s) \<longrightarrow>
            coin_market_cap c = Some v \<longrightarrow> P (upper s) v"
  shows "\<forall>k v. foldl merge_page_bn mc ds k = Some v \<longrightarrow> P k v"
  using assms
proof (induction ds arbitrary: mc)
  case Nil
  then show ?case by simp
next
  case (Cons d ds)
  have d: "\<forall>c s v. Object c \<in> set d \<longrightarrow> coin_symbol c = Some (JString s) \<longrightarrow>
            coin_market_cap c = Some v \<longrightarrow> P (upper s) v"
    using Cons.prems(2) by simp
  have ds: "\<forall>data\<in>set ds. \<forall>c s v. Object c \<in> set data \<longrightarrow> coin_symbol c = Some (JString s) \<longrightarrow>
            coin_market_cap c = Some v \<longrightarrow> P (upper s) v"
    using Cons.prems(2) by simp
  have "\<forall>k v. merge_page_bn mc d k = Some v \<longrightarrow> P k v"
    by (rule merge_page_bn_inv [OF Cons.prems(1) d])
  then have "\<forall>k v. foldl merge_page_bn (merge_page_bn mc d) ds k = Some v \<longrightarrow> P k v"
    by (rule Cons.IH [OF _ ds])
  then show ?case by simp
qed

lemma fresh_market_caps_st_fetch:
  assumes miss: "read_cache_st now cache_ttl file = None"
    and kv: "fst (get_coingecko_market_caps_st net writable now pages cache_ttl file) k = Some v"
  shows "upper k = k \<and> k \<noteq> []
         \<and> (\<exists>x. v = JNum x \<and> x \<noteq> 0
              \<and> (\<exists>page c s.
                    page \<in> set (snd (snd (get_coingecko_market_caps_st net writable now pages
                                            cache_ttl file)))
                    \<and> Object c \<in> set (merged_records_st net page)
                    \<and> coin_symbol c = Some (JString s) \<and> upper s = k
                    \<and> coin_market_cap c = Some (JNum x)))"
proof -
  define reqs where
    "reqs = takeWhile (page_ok net) [1..pages] @ take 1 (dropWhile (page_ok net) [1..pages])"
  define P where "P = (\<lambda>k v. upper k = k \<and> k \<noteq> []
         \<and> (\<exists>x. v = JNum x \<and> x \<noteq> 0
              \<and> (\<exists>page c s. page \<in> set reqs \<and> Object c \<in> set (merged_records_st net page)
                    \<and> coin_symbol c = Some (JString s) \<and> upper s = k
                    \<and> coin_market_cap c = Some (JNum x))))"
  define ds where "ds = map (merged_records_st net) reqs"
  have requested: "snd (snd (get_coingecko_market_caps_st net writable now pages cache_ttl file))
                     = reqs"
    using miss by (simp add: get_coingecko_market_caps_st_def fetch_pages_st_char reqs_def)
  have fetched: "fst (get_coingecko_market_caps_st net writable now pages cache_ttl file)
                   = foldl (\<lambda>m d. fst (merge_page_st m d)) Map.empty ds"
    using miss
    by (simp add: get_coingecko_market_caps_st_def fetch_pages_st_char ds_def reqs_def)
  have init: "\<forall>k v. (Map.empty :: market_caps) k = Some v \<longrightarrow> P k v"
    by simp
  have step: "\<forall>data\<in>set ds. \<forall>c s x. Object c \<in> set data \<longrightarrow> coin_symbol c = Some (JString s) \<longrightarrow>
            s \<noteq> [] \<longrightarrow> coin_market_cap c = Some (JNum x) \<longrightarrow> x \<noteq> 0 \<longrightarrow> P (upper s) (JNum x)"
  proof (intro ballI allI impI)
    fix data c s x
    assume data: "data \<in> set ds" and c: "Object c \<in> set data"
      and s: "coin_symbol c = Some (JString s)" "s \<noteq> []"
      and x: "coin_market_cap c = Some (JNum x)" "x \<noteq> 0"
    from data obtain page where "page \<in> set reqs" and "data = merged_records_st net page"
      by (auto simp: ds_def)
    with c s x show "P (upper s) (JNum x)"
      unfolding P_def by (auto simp: upper_idem upper_eq_Nil)
  qed
  have "\<forall>k v. foldl (\<lambda>m d. fst (merge_page_st m d)) Map.empty ds k = Some v \<longrightarrow> P k v"
    by (rule foldl_merge_page_st_inv [OF init step])
  with kv fetched have "P k v" by simp
  then show ?thesis unfolding requested by (simp add: P_def)
qed

lemma fetched_bn_char:
  "fetched_bn net pages = foldl merge_page_bn Map.empty (map (merged_records_bn net) [1..pages])"
  by (simp add: fetched_bn_def fetch_pages_bn_char)

lemma fetched_bn_entries:
  assumes "fetched_bn net pages k = Some v"
  shows "upper k = k
         \<and> (\<exists>page c s. page \<in> set [1..pages] \<and> Object c \<in> set (merged_records_bn net page)
               \<and> coin_symbol c = Some (JString s) \<and> upper s = k
               \<and> coin_market_cap c = Some v)"
proof -
  define P where "P = (\<lambda>k v. upper k = k
         \<and> (\<exists>page c s. page \<in> set [1..pages] \<and> Object c \<in> set (merged_records_bn net page)
               \<and> coin_symbol c = Some (JString s) \<and> upper s = k
               \<and> coin_market_cap c = Some v))"
  define ds where "ds = map (merged_records_bn net) [1..pages]"
  have init: "\<forall>k v. (Map.empty :: market_caps) k = Some v \<longrightarrow> P k v"
    by simp
  have step: "\<forall>data\<in>set ds. \<forall>c s v. Object c \<in> set data \<longrightarrow> coin_symbol c = Some (JString s) \<longrightarrow>
            coin_market_cap c = Some v \<longrightarrow> P (upper s) v"
  proof (intro ballI allI impI)
    fix data c s v
    assume data: "data \<in> set ds" and c: "Object c \<in> set data"
      and s: "coin_symbol c = Some (JString s)" and v: "coin_market_cap c = Some v"
    from data obtain page where "page \<in> set [1..pages]" and "data = merged_records_bn net page"
      by (auto simp: ds_def)
    with c s v show "P (upper s) v"
      unfolding P_def by (auto simp: upper_idem)
  qed
  have "\<forall>k v. foldl merge_page_bn Map.empty ds k = Some v \<longrightarrow> P k v"
    by (rule foldl_merge_page_bn_inv [OF init step])
  with assms have "P k v" by (simp add: fetched_bn_char ds_def)
  then show ?thesis by (simp add: P_def)
qed

lemma get_coingecko_market_caps_bn_fresh:
  assumes "read_cache_bn now cache_ttl file_bn = None" and "fetched_bn net pages \<noteq> Map.empty"
  shows "fst (get_coingecko_market_caps_bn net writable now write_time pages cache_ttl file_bn)
           = fetched_bn net pages"
  using assms
  by (auto simp: get_coingecko_market_caps_bn_def fetched_bn_def split: prod.splits)

lemma get_coingecko_market_caps_bn_stale:
  assumes "file_bn = Some f" and "content f = Some cached" and "fetched_bn net pages = Map.empty"
  shows "fst (get_coingecko_market_caps_bn net writable now write_time pages cache_ttl file_bn)
           = cached
         \<and> fst (snd (get_coingecko_market_caps_bn net writable now write_time pages cache_ttl
                        file_bn)) = file_bn"
  using assms
  by (auto simp: get_coingecko_market_caps_bn_def read_cache_bn_def fetched_bn_def
      split: prod.splits)

text \<open>
  The claim C4 as it is written (every mapping the function produces has upper-case keys
  and non-negative values, and no key is mapped to 0) fails on two inputs.
  \<^verbatim>\<open>binance.py\<close> stores every market cap it is given: the record of \<open>eth\<close> with
  market cap 0 puts \<open>"ETH" \<mapsto> 0\<close> in the mapping (its screener skips such entries
  when it reads them). \<^verbatim>\<open>self_time.py\<close> tests the market cap for truth only, so a
  negative number is stored.
\<close>

theorem market_caps_counterexample:
  "fst (get_coingecko_market_caps_bn sample_net True 1000 1000 3 604800 None) ''ETH''
     = Some (JNum 0)
   \<and> fst (get_coingecko_market_caps_st
            (\<lambda>page. if page = 1
                     then Page [Object \<lparr>coin_symbol = Some (JString ''abc''),
                                        coin_market_cap = Some (JNum (- 5))\<rparr>]
                     else Page [])
            True 1000 3 604800 Absent) ''ABC''
     = Some (JNum (- 5))"
  by (simp add: cache_eval string_defs upto.simps)

text \<open>
  C4, as the code has it. In a mapping freshly fetched by \<^verbatim>\<open>self_time.py\<close> or
  \<^verbatim>\<open>self_time_50bilile.py\<close> (a cache miss) every key is upper-case and not empty,
  and every value is a market cap other than 0 and \<^verbatim>\<open>null\<close> that a record of a
  requested page, among those its loop got through, gave for that symbol: records with a
  market cap that is 0, \<^verbatim>\<open>null\<close> or absent are not stored (the values are
  therefore non-negative whenever the aggregator's are). In a mapping freshly fetched by \<^verbatim>\<open>binance.py\<close> (a cache
  miss and a fetch that is not empty, whatever the cache file was) every key is upper-case
  and every value is the market cap, 0 and \<^verbatim>\<open>null\<close> included, that such a record
  gave for that symbol. A mapping loaded from the cache is the stored one, whatever it
  holds: from a file within its TTL in every script, and in \<^verbatim>\<open>binance.py\<close> also from
  a file of any age when the fetch brought nothing.
\<close>

theorem market_caps_keys_and_values:
  "(read_cache_st now cache_ttl cache = None
      \<and> fst (get_coingecko_market_caps_st net writable now pages cache_ttl cache) k = Some v
    \<longrightarrow> upper k = k \<and> k \<noteq> []
        \<and> (\<exists>x. v = JNum x \<and> x \<noteq> 0
              \<and> (\<exists>page c s.
                    page \<in> set (snd (snd (get_coingecko_market_caps_st net writable now pages
                                            cache_ttl cache)))
                    \<and> Object c \<in> set (merged_records_st net page)
                    \<and> coin_symbol c = Some (JString s) \<and> upper s = k
                    \<and> coin_market_cap c = Some (JNum x))))
   \<and> (read_cache_bn now cache_ttl cache_bn = None \<and> fetched_bn net pages \<noteq> Map.empty
      \<and> fst (get_coingecko_market_caps_bn net writable now write_time pages cache_ttl cache_bn) k
          = Some v
    \<longrightarrow> upper k = k
        \<and> (\<exists>page c s. page \<in> set [1..pages] \<and> Object c \<in> set (merged_records_bn net page)
              \<and> coin_symbol c = Some (JString s) \<and> upper s = k
              \<and> coin_market_cap c = Some v))
   \<and> (cache = Snapshot (Some ts) (Some stored) \<and> now - ts < cache_ttl
    \<longrightarrow> fst (get_coingecko_market_caps_st net writable now pages cache_ttl cache) = stored)
   \<and> (cache_bn = Some f \<and> content f = Some stored \<and> now - mtime f < cache_ttl
    \<longrightarrow> fst (get_coingecko_market_caps_bn net writable now write_time pages cache_ttl cache_bn)
          = stored)
   \<and> (cache_bn = Some f \<and> content f = Some stored \<and> fetched_bn net pages = Map.empty
    \<longrightarrow> fst (get_coingecko_market_caps_bn net writable now write_time pages cache_ttl cache_bn)
          = stored)"
proof -
  have fresh_st: "read_cache_st now cache_ttl cache = None
      \<and> fst (get_coingecko_market_caps_st net writable now pages cache_ttl cache) k = Some v
    \<longrightarrow> upper k = k \<and> k \<noteq> []
        \<and> (\<exists>x. v = JNum x \<and> x \<noteq> 0
              \<and> (\<exists>page c s.
                    page \<in> set (snd (snd (get_coingecko_market_caps_st net writable now pages
                                            cache_ttl cache)))
                    \<and> Object c \<in> set (merged_records_st net page)
                    \<and> coin_symbol c = Some (JString s) \<and> upper s = k
                    \<and> coin_market_cap c = Some (JNum x)))"
    using fresh_market_caps_st_fetch by blast
  have fresh_bn: "read_cache_bn now cache_ttl cache_bn = None \<and> fetched_bn net pages \<noteq> Map.empty
      \<and> fst (get_coingecko_market_caps_bn net writable now write_time pages cache_ttl cache_bn) k
          = Some v
    \<longrightarrow> upper k = k
        \<and> (\<exists>page c s. page \<in> set [1..pages] \<and> Object c \<in> set (merged_records_bn net page)
              \<and> coin_symbol c = Some (JString s) \<and> upper s = k
              \<and> coin_market_cap c = Some v)"
  proof
    assume a: "read_cache_bn now cache_ttl cache_bn = None \<and> fetched_bn net pages \<noteq> Map.empty
      \<and> fst (get_coingecko_market_caps_bn net writable now write_time pages cache_ttl cache_bn) k
          = Some v"
    then have "fst (get_coingecko_market_caps_bn net writable now write_time pages cache_ttl
                      cache_bn) = fetched_bn net pages"
      by (simp add: get_coingecko_market_caps_bn_fresh)
    with a have "fetched_bn net pages k = Some v" by simp
    then show "upper k = k
        \<and> (\<exists>page c s. page \<in> set [1..pages] \<and> Object c \<in> set (merged_records_bn net page)
              \<and> coin_symbol c = Some (JString s) \<and> upper s = k
              \<and> coin_market_cap c = Some v)"
      by (rule fetched_bn_entries)
  qed
  have hit_st: "cache = Snapshot (Some ts) (Some stored) \<and> now - ts < cache_ttl
    \<longrightarrow> fst (get_coingecko_market_caps_st net writable now pages cache_ttl cache) = stored"
    by (simp add: get_coingecko_market_caps_st_def read_cache_st_def)
  have hit_bn: "cache_bn = Some f \<and> content f = Some stored \<and> now - mtime f < cache_ttl
    \<longrightarrow> fst (get_coingecko_market_caps_bn net writable now write_time pages cache_ttl cache_bn)
          = stored"
    by (simp add: get_coingecko_market_caps_bn_def read_cache_bn_def)
  have stale_bn: "cache_bn = Some f \<and> content f = Some stored \<and> fetched_bn net pages = Map.empty
    \<longrightarrow> fst (get_coingecko_market_caps_bn net writable now write_time pages cache_ttl cache_bn)
          = stored"
    using get_coingecko_market_caps_bn_stale by blast
  show ?thesis
    by (rule conjI [OF fresh_st conjI [OF fresh_bn conjI [OF hit_st conjI [OF hit_bn stale_bn]]]])
qed

theorem market_caps_keys_and_values_witness:
  "read_cache_st 1000 604800 Absent = None
   \<and> fst (get_coingecko_market_caps_st sample_net True 1000 3 604800 Absent) ''BTC''
       = Some (JNum 5)
   \<and> upper ''BTC'' = ''BTC''
   \<and> read_cache_bn 1000000 604800 (Some sample_stale_bn) = None
   \<and> fetched_bn sample_net 3 \<noteq> Map.empty
   \<and> fst (get_coingecko_market_caps_bn sample_net True 1000000 1000000 3 604800
             (Some sample_stale_bn)) ''ETH'' = Some (JNum 0)
   \<and> upper ''ETH'' = ''ETH''
   \<and> fst (get_coingecko_market_caps_st (\<lambda>_. PageFailed) True 2000 3 604800
             (Snapshot (Some 1000) (Some [''BTC'' \<mapsto> JNum 5]))) = [''BTC'' \<mapsto> JNum 5]
   \<and> fst (get_coingecko_market_caps_bn (\<lambda>_. PageFailed) True 1000 1000 3 604800
             (Some sample_stale_bn)) = [''OLD'' \<mapsto> JNum 1]
   \<and> fetched_bn (\<lambda>_. PageFailed) 3 = Map.empty
   \<and> fst (get_coingecko_market_caps_bn (\<lambda>_. PageFailed) True 1000000 1000000 3 604800
             (Some sample_stale_bn)) = [''OLD'' \<mapsto> JNum 1]"
proof -
  have miss_st: "read_cache_st 1000 604800 Absent = None"
    by (simp add: read_cache_st_def)
  have kv_st: "fst (get_coingecko_market_caps_st sample_net True 1000 3 604800 Absent) ''BTC''
                 = Some (JNum 5)"
    by (simp add: cache_eval string_defs upto.simps)
  have miss_bn: "read_cache_bn 1000000 604800 (Some sample_stale_bn) = None"
    by (simp add: read_cache_bn_def sample_stale_bn_def)
  have fetched: "fetched_bn sample_net 3 ''ETH'' = Some (JNum 0)"
    by (simp add: cache_eval string_defs upto.simps)
  then have nonempty: "fetched_bn sample_net 3 \<noteq> Map.empty"
    by auto
  have kv_bn: "fst (get_coingecko_market_caps_bn sample_net True 1000000 1000000 3 604800
             (Some sample_stale_bn)) ''ETH'' = Some (JNum 0)"
    using fetched get_coingecko_market_caps_bn_fresh [OF miss_bn nonempty] by simp
  have none_fetched: "fetched_bn (\<lambda>_. PageFailed) 3 = Map.empty"
    by (simp add: cache_eval upto.simps)
  have fresh_file: "(2000::real) - 1000 < 604800" by simp
  have fresh_bn: "(1000::real) - mtime sample_stale_bn < 604800"
    by (simp add: sample_stale_bn_def)
  have stored: "content sample_stale_bn = Some [''OLD'' \<mapsto> JNum 1]"
    by (simp add: sample_stale_bn_def)
  note a = market_caps_keys_and_values
             [where now = 1000 and cache_ttl = 604800 and cache = Absent and net = sample_net
                and writable = True and pages = 3 and k = "''BTC''" and v = "JNum 5"]
  note b = market_caps_keys_and_values
             [where now = 1000000 and cache_ttl = 604800 and cache_bn = "Some sample_stale_bn"
                and net = sample_net and writable = True and write_time = 1000000
                and pages = 3 and k = "''ETH''" and v = "JNum 0"]
  note c = market_caps_keys_and_values
             [where now = 2000 and cache_ttl = 604800 and ts = 1000
                and stored = "[''BTC'' \<mapsto> JNum 5]"
                and cache = "Snapshot (Some 1000) (Some [''BTC'' \<mapsto> JNum 5])"
                and net = "\<lambda>_. PageFailed" and writable = True and pages = 3]
  note d = market_caps_keys_and_values
             [where now = 1000 and cache_ttl = 604800 and cache_bn = "Some sample_stale_bn"
                and f = sample_stale_bn and stored = "[''OLD'' \<mapsto> JNum 1]"
                and net = "\<lambda>_. PageFailed" and writable = True and write_time = 1000
                and pages = 3]
  note e = market_caps_keys_and_values
             [where now = 1000000 and cache_ttl = 604800 and cache_bn = "Some sample_stale_bn"
                and f = sample_stale_bn and stored = "[''OLD'' \<mapsto> JNum 1]"
                and net = "\<lambda>_. PageFailed" and writable = True and write_time = 1000000
                and pages = 3]
  have 1: "upper ''BTC'' = ''BTC''"
    by (rule a [THEN conjunct1, THEN mp, OF conjI [OF miss_st kv_st], THEN conjunct1])
  have 2: "upper ''ETH'' = ''ETH''"
    by (rule b [THEN conjunct2, THEN conjunct1, THEN mp,
                OF conjI [OF miss_bn conjI [OF nonempty kv_bn]], THEN conjunct1])
  have 3: "fst (get_coingecko_market_caps_st (\<lambda>_. PageFailed) True 2000 3 604800
             (Snapshot (Some 1000) (Some [''BTC'' \<mapsto> JNum 5]))) = [''BTC'' \<mapsto> JNum 5]"
    by (rule c [THEN conjunct2, THEN conjunct2, THEN conjunct1, THEN mp,
                OF conjI [OF refl fresh_file]])
  have 4: "fst (get_coingecko_market_caps_bn (\<lambda>_. PageFailed) True 1000 1000 3 604800
             (Some sample_stale_bn)) = [''OLD'' \<mapsto> JNum 1]"
    by (rule d [THEN conjunct2, THEN conjunct2, THEN conjunct2, THEN conjunct1, THEN mp,
                OF conjI [OF refl conjI [OF stored fresh_bn]]])
  have 5: "fst (get_coingecko_market_caps_bn (\<lambda>_. PageFailed) True 1000000 1000000 3 604800
             (Some sample_stale_bn)) = [''OLD'' \<mapsto> JNum 1]"
  proof -
    have "Some sample_stale_bn = Some sample_stale_bn
          \<and> content sample_stale_bn = Some [''OLD'' \<mapsto> JNum 1]
          \<and> fetched_bn (\<lambda>_. PageFailed) 3 = Map.empty"
      using stored none_fetched by simp
    with e [THEN conjunct2, THEN conjunct2, THEN conjunct2, THEN conjunct2]
    show ?thesis by (rule mp)
  qed
  show ?thesis
    by (rule conjI [OF miss_st conjI [OF kv_st conjI [OF 1 conjI [OF miss_bn
          conjI [OF nonempty conjI [OF kv_bn conjI [OF 2 conjI [OF 3 conjI [OF 4
          conjI [OF none_fetched 5]]]]]]]]]])
qed

text \<open>
  The claim C5 as it is written (the fetch stops at the first page that is empty or
  fails) fails for \<^verbatim>\<open>binance.py\<close>, whose page loop has no \<^verbatim>\<open>break\<close>: page 2 fails
  and page 3 is still requested.
\<close>

theorem page_requests_counterexample:
  "sample_net 2 = PageFailed
   \<and> snd (snd (get_coingecko_market_caps_bn sample_net True 1000 1000 3 604800 None)) = [1, 2, 3]"
  by (simp add: cache_eval upto.simps)

text \<open>
  C5, as the code has it. On a cache miss \<^verbatim>\<open>self_time.py\<close> and
  \<^verbatim>\<open>self_time_50bilile.py\<close> request the pages \<open>1, 2, ...\<close> in ascending order, at most
  \<open>pages\<close> of them: the pages up to and including the first one whose request fails,
  that is empty, or that holds an item at which the record loop raises (all of
  \<open>1, ..., pages\<close> when there is none). The mapping returned merges, for every page
  requested, the records the loop got through: the whole of each page before the stop,
  and of the page of the stop the records before the raising item. \<^verbatim>\<open>binance.py\<close>
  requests every page \<open>1, ..., pages\<close> in ascending order, merges of each page the records
  before the first item at which its loop raises, and returns that merge when it is not
  empty.
\<close>

theorem page_requests_on_cache_miss:
  "(read_cache_st now cache_ttl cache = None \<longrightarrow>
      snd (snd (get_coingecko_market_caps_st net writable now pages cache_ttl cache))
        = takeWhile (page_ok net) [1..pages] @ take 1 (dropWhile (page_ok net) [1..pages])
      \<and> (\<exists>rest. [1..pages]
            = snd (snd (get_coingecko_market_caps_st net writable now pages cache_ttl cache)) @ rest)
      \<and> fst (get_coingecko_market_caps_st net writable now pages cache_ttl cache)
        = foldl (\<lambda>m d. fst (merge_page_st m d)) Map.empty
            (map (merged_records_st net)
               (snd (snd (get_coingecko_market_caps_st net writable now pages cache_ttl cache)))))
   \<and> (read_cache_bn now cache_ttl cache_bn = None \<longrightarrow>
      snd (snd (get_coingecko_market_caps_bn net writable now write_time pages cache_ttl cache_bn))
        = [1..pages]
      \<and> fetched_bn net pages
          = foldl merge_page_bn Map.empty (map (merged_records_bn net) [1..pages])
      \<and> (fetched_bn net pages \<noteq> Map.empty \<longrightarrow>
          fst (get_coingecko_market_caps_bn net writable now write_time pages cache_ttl cache_bn)
            = fetched_bn net pages))"
proof -
  have st: "read_cache_st now cache_ttl cache = None \<longrightarrow>
      snd (snd (get_coingecko_market_caps_st net writable now pages cache_ttl cache))
        = takeWhile (page_ok net) [1..pages] @ take 1 (dropWhile (page_ok net) [1..pages])
      \<and> (\<exists>rest. [1..pages]
            = snd (snd (get_coingecko_market_caps_st net writable now pages cache_ttl cache)) @ rest)
      \<and> fst (get_coingecko_market_caps_st net writable now pages cache_ttl cache)
        = foldl (\<lambda>m d. fst (merge_page_st m d)) Map.empty
            (map (merged_records_st net)
               (snd (snd (get_coingecko_market_caps_st net writable now pages cache_ttl cache))))"
  proof
    assume miss: "read_cache_st now cache_ttl cache = None"
    have reqs: "snd (snd (get_coingecko_market_caps_st net writable now pages cache_ttl cache))
        = takeWhile (page_ok net) [1..pages] @ take 1 (dropWhile (page_ok net) [1..pages])"
      using miss by (simp add: get_coingecko_market_caps_st_def fetch_pages_st_char)
    have "[1..pages]
            = (takeWhile (page_ok net) [1..pages] @ take 1 (dropWhile (page_ok net) [1..pages]))
              @ drop 1 (dropWhile (page_ok net) [1..pages])"
      by simp
    then have prefix: "\<exists>rest. [1..pages]
            = snd (snd (get_coingecko_market_caps_st net writable now pages cache_ttl cache)) @ rest"
      unfolding reqs by (rule exI)
    have merged: "fst (get_coingecko_market_caps_st net writable now pages cache_ttl cache)
        = foldl (\<lambda>m d. fst (merge_page_st m d)) Map.empty
            (map (merged_records_st net)
               (snd (snd (get_coingecko_market_caps_st net writable now pages cache_ttl cache))))"
      unfolding reqs using miss
      by (simp add: get_coingecko_market_caps_st_def fetch_pages_st_char)
    from reqs prefix merged show "snd (snd (get_coingecko_market_caps_st net writable now pages
                                         cache_ttl cache))
        = takeWhile (page_ok net) [1..pages] @ take 1 (dropWhile (page_ok net) [1..pages])
      \<and> (\<exists>rest. [1..pages]
            = snd (snd (get_coingecko_market_caps_st net writable now pages cache_ttl cache)) @ rest)
      \<and> fst (get_coingecko_market_caps_st net writable now pages cache_ttl cache)
        = foldl (\<lambda>m d. fst (merge_page_st m d)) Map.empty
            (map (merged_records_st net)
               (snd (snd (get_coingecko_market_caps_st net writable now pages cache_ttl cache))))"
      by blast
  qed
  have bn: "read_cache_bn now cache_ttl cache_bn = None \<longrightarrow>
      snd (snd (get_coingecko_market_caps_bn net writable now write_time pages cache_ttl cache_bn))
        = [1..pages]
      \<and> fetched_bn net pages
          = foldl merge_page_bn Map.empty (map (merged_records_bn net) [1..pages])
      \<and> (fetched_bn net pages \<noteq> Map.empty \<longrightarrow>
          fst (get_coingecko_market_caps_bn net writable now write_time pages cache_ttl cache_bn)
            = fetched_bn net pages)"
  proof
    assume miss: "read_cache_bn now cache_ttl cache_bn = None"
    have reqs: "snd (snd (get_coingecko_market_caps_bn net writable now write_time pages
                            cache_ttl cache_bn)) = [1..pages]"
      using miss
      by (simp add: get_coingecko_market_caps_bn_def fetch_pages_bn_char split: option.splits)
    have fresh: "fetched_bn net pages \<noteq> Map.empty \<longrightarrow>
          fst (get_coingecko_market_caps_bn net writable now write_time pages cache_ttl cache_bn)
            = fetched_bn net pages"
      using miss get_coingecko_market_caps_bn_fresh by blast
    from reqs fetched_bn_char fresh
    show "snd (snd (get_coingecko_market_caps_bn net writable now write_time pages cache_ttl
                      cache_bn)) = [1..pages]
      \<and> fetched_bn net pages
          = foldl merge_page_bn Map.empty (map (merged_records_bn net) [1..pages])
      \<and> (fetched_bn net pages \<noteq> Map.empty \<longrightarrow>
          fst (get_coingecko_market_caps_bn net writable now write_time pages cache_ttl cache_bn)
            = fetched_bn net pages)"
      by blast
  qed
  show ?thesis by (rule conjI [OF st bn])
qed

theorem page_requests_on_cache_miss_witness:
  "read_cache_st 1000 604800 Absent = None
   \<and> snd (snd (get_coingecko_market_caps_st sample_net True 1000 3 604800 Absent)) = [1, 2]
   \<and> fst (get_coingecko_market_caps_st sample_net True 1000 3 604800 Absent)
       = [''BTC'' \<mapsto> JNum 5]
   \<and> snd (snd (get_coingecko_market_caps_st sample_net_null True 1000 3 604800 Absent)) = [1]
   \<and> fst (get_coingecko_market_caps_st sample_net_null True 1000 3 604800 Absent)
       = [''AAA'' \<mapsto> JNum 1]
   \<and> read_cache_bn 1000 604800 None = None
   \<and> snd (snd (get_coingecko_market_caps_bn sample_net True 1000 1000 3 604800 None)) = [1, 2, 3]"
proof -
  have st: "read_cache_st 1000 604800 Absent = None"
    by (simp add: read_cache_st_def)
  have bn: "read_cache_bn 1000 604800 None = None"
    by (simp add: read_cache_bn_def)
  have pages: "[1..3] = [1, 2, 3::int]"
    by (simp add: upto.simps)
  note a = page_requests_on_cache_miss
             [where now = 1000 and cache_ttl = 604800 and cache = Absent and net = sample_net
                and writable = True and pages = 3 and cache_bn = None and write_time = 1000]
  note b = page_requests_on_cache_miss
             [where now = 1000 and cache_ttl = 604800 and cache = Absent and net = sample_net_null
                and writable = True and pages = 3 and cache_bn = None and write_time = 1000]
  show ?thesis
    using st bn a b
    by (simp add: pages sample_net_def sample_net_null_def page_ok_def page_records_def
        merged_records_st_def raises_st_def symbol_or_empty_def string_defs truthy_number_def)
qed

subsection \<open>A refetch that brings nothing\<close>

text \<open>
  \<^verbatim>\<open>binance.py\<close> writes the cache only when the refetch brought entries, and otherwise
  returns what the cache file holds, whatever its age; without a cache file it returns
  the empty mapping. \<^verbatim>\<open>self_time.py\<close> returns the empty mapping too when there is no
  cache file.
\<close>

lemma binance_stale_cache_fallback:
  assumes "content f = Some cached"
    and "fst (fetch_pages_bn net Map.empty [1..pages]) = Map.empty"
  shows "fst (get_coingecko_market_caps_bn net writable now write_time pages cache_ttl (Some f))
           = cached
         \<and> fst (snd (get_coingecko_market_caps_bn net writable now write_time pages cache_ttl
                        (Some f))) = Some f"
  using assms
  by (auto simp: get_coingecko_market_caps_bn_def read_cache_bn_def split: prod.splits)

lemma binance_no_cache_no_entries:
  assumes "fst (fetch_pages_bn net Map.empty [1..pages]) = Map.empty"
  shows "fst (get_coingecko_market_caps_bn net writable now write_time pages cache_ttl None)
           = Map.empty"
  using assms
  by (auto simp: get_coingecko_market_caps_bn_def read_cache_bn_def split: prod.splits)

lemma self_time_no_cache_no_entries:
  assumes "fst (fetch_pages_st net Map.empty [1..pages]) = Map.empty"
  shows "fst (get_coingecko_market_caps_st net writable now pages cache_ttl Absent) = Map.empty"
  using assms
  by (auto simp: get_coingecko_market_caps_st_def read_cache_st_def split: prod.splits)

text \<open>
  C2: when a cache file exists, even expired, and the refetch brings no entry at all, the
  stale mapping is returned and the cache file keeps its contents. \<^verbatim>\<open>self_time.py\<close>
  and \<^verbatim>\<open>self_time_50bilile.py\<close> have no such fallback and write the cache
  unconditionally: with an expired cache holding \<open>"BTC" \<mapsto> 100\<close> and every page request
  failing, the call returns the empty mapping and replaces the file's contents by an
  empty snapshot stamped with the current time.
\<close>

theorem self_time_refetch_failure_overwrites_cache:
  "get_coingecko_market_caps_st (\<lambda>_. PageFailed) True 1000000 7 604800
     (Snapshot (Some 0) (Some [''BTC'' \<mapsto> JNum 100]))
   = (Map.empty, Snapshot (Some 1000000) (Some Map.empty), [1])"
  by (simp add: get_coingecko_market_caps_st_def read_cache_st_def upto.simps)

subsection \<open>Write, then read within the TTL\<close>

text \<open>
  C8: a call of \<^verbatim>\<open>get_coingecko_market_caps\<close> (\<^verbatim>\<open>self_time.py\<close>) that misses the
  cache at time \<open>now1\<close>, fetches and writes its snapshot leaves a file from which a second
  call at a time \<open>now2\<close> with \<open>now2 - now1 < ttl2\<close> returns the same mapping; the
  second call requests no page, whatever the network would answer, and leaves the file
  as it is.
\<close>

theorem cache_round_trip:
  assumes "read_cache_st now1 ttl1 file0 = None"
    and "get_coingecko_market_caps_st net1 True now1 pages1 ttl1 file0 = (mc, file1, reqs1)"
    and "now2 - now1 < ttl2"
  shows "get_coingecko_market_caps_st net2 writable2 now2 pages2 ttl2 file1 = (mc, file1, [])"
  using assms
  by (auto simp: get_coingecko_market_caps_st_def read_cache_st_def split: prod.splits)

theorem cache_round_trip_witness:
  "read_cache_st 1000 604800 Absent = None
   \<and> get_coingecko_market_caps_st sample_net True 1000 3 604800 Absent
       = ([''BTC'' \<mapsto> JNum 5], Snapshot (Some 1000) (Some [''BTC'' \<mapsto> JNum 5]), [1, 2])
   \<and> (2000::real) - 1000 < 604800
   \<and> get_coingecko_market_caps_st (\<lambda>_. PageFailed) False 2000 3 604800
         (Snapshot (Some 1000) (Some [''BTC'' \<mapsto> JNum 5]))
       = ([''BTC'' \<mapsto> JNum 5], Snapshot (Some 1000) (Some [''BTC'' \<mapsto> JNum 5]), [])"
proof -
  have miss: "read_cache_st 1000 604800 Absent = None"
    by (simp add: read_cache_st_def)
  have first: "get_coingecko_market_caps_st sample_net True 1000 3 604800 Absent
       = ([''BTC'' \<mapsto> JNum 5], Snapshot (Some 1000) (Some [''BTC'' \<mapsto> JNum 5]), [1, 2])"
    by (simp add: cache_eval string_defs upto.simps)
  have within: "(2000::real) - 1000 < 604800"
    by simp
  from miss first within cache_round_trip [OF miss first within] show ?thesis
    by simp
qed

subsection \<open>Ranking\<close>

lemma sorted_desc:
  "sorted_wrt (\<ge>) (map key (slice_to (sort_reverse key xs) n))"
proof -
  have "sorted (map (\<lambda>x. - key x) (sort_reverse key xs))"
    unfolding sort_reverse_def by (rule sorted_sort_key)
  then have "sorted_wrt (\<lambda>x y. key x \<ge> key y) (sort_reverse key xs)"
    by (simp add: sorted_wrt_map)
  then have "sorted_wrt (\<lambda>x y. key x \<ge> key y) (slice_to (sort_reverse key xs) n)"
    by (simp add: slice_to_def)
  then show ?thesis by (simp add: sorted_wrt_map)
qed

lemma slice_to_length: "0 \<le> n \<Longrightarrow> int (length (slice_to xs n)) \<le> n"
  by (simp add: slice_to_def)

lemma slice_to_negative:
  "n < 0 \<Longrightarrow> length (slice_to xs n) = nat (int (length xs) + n)"
  by (simp add: slice_to_def)

lemmas screen_eval =
  get_high_volume_to_marketcap_contracts_bn_def get_high_volume_to_marketcap_contracts_st_def
  get_all_usdt_contracts_def sample_contracts_def sample_caps_def truthy_number_def
  exclude_symbols_def slice_to_def sort_reverse_def check_symbol_volume_ratio_st_def
  day_volume_def

text \<open>
  The claim C6 as it is written (for every configuration the output is sorted by
  non-increasing ratio and is no longer than \<open>limit\<close>) fails for a negative limit:
  \<^verbatim>\<open>results[:limit]\<close> then drops the last \<open>-limit\<close> results. With two qualifying
  contracts and \<open>limit = -1\<close> the output has one result.
\<close>

theorem ranked_output_counterexample:
  "get_high_volume_to_marketcap_contracts_bn sample_caps sample_contracts (1/2) (- 1)
     = [\<lparr>symbol = ''BUSDT'', volume_usdt = 180, market_cap = 200, ratio = 9/10, price = 2,
         change = 3, tag = ''B/USDT:USDT''\<rparr>]
   \<and> \<not> int (length (get_high_volume_to_marketcap_contracts_bn sample_caps sample_contracts
                       (1/2) (- 1))) \<le> - 1"
  by (simp add: screen_eval string_defs)

text \<open>
  C6, as the code has it: in all three scripts the list returned is sorted by
  non-increasing ratio, for every limit; and its length is at most \<open>limit\<close> whenever
  \<open>limit\<close> is not negative. This holds for every order in which the thread pool
  completes the per-symbol calls and for every outcome of those calls.
\<close>

theorem ranked_output:
  "(get_high_volume_to_marketcap_contracts_st E as_completed caps symbols date days threshold limit
      = Inr out_st
    \<longrightarrow> sorted_wrt (\<ge>) (map ratio out_st) \<and> (0 \<le> limit \<longrightarrow> int (length out_st) \<le> limit))
   \<and> (get_high_volume_to_marketcap_contracts_50 E as_completed caps symbols date days threshold
        limit max_market_cap = Inr out_50
    \<longrightarrow> sorted_wrt (\<ge>) (map ratio out_50) \<and> (0 \<le> limit \<longrightarrow> int (length out_50) \<le> limit))
   \<and> sorted_wrt (\<ge>)
        (map ratio (get_high_volume_to_marketcap_contracts_bn caps contracts threshold limit))
   \<and> (0 \<le> limit \<longrightarrow>
        int (length (get_high_volume_to_marketcap_contracts_bn caps contracts threshold limit))
          \<le> limit)"
  by (auto simp: get_high_volume_to_marketcap_contracts_st_def
      get_high_volume_to_marketcap_contracts_50_def get_high_volume_to_marketcap_contracts_bn_def
      sorted_desc slice_to_length split: sum.splits)

theorem ranked_output_witness:
  "get_high_volume_to_marketcap_contracts_st sample_env (\<lambda>fs. fs) sample_caps
       [''AUSDT'', ''BUSDT''] 20242 3 (1/2) 1
     = Inr [\<lparr>symbol = ''AUSDT'', volume_usdt = 60, market_cap = 100, ratio = 3/5,
              price = 0, change = 0, tag = ''A/USDT:USDT''\<rparr>]
   \<and> (0::int) \<le> 1
   \<and> int (length [\<lparr>symbol = ''AUSDT'', volume_usdt = 60, market_cap = 100, ratio = 3/5,
              price = 0, change = 0, tag = ''A/USDT:USDT''\<rparr>]) \<le> 1
   \<and> get_high_volume_to_marketcap_contracts_bn sample_caps sample_contracts (1/2) 1
     = [\<lparr>symbol = ''BUSDT'', volume_usdt = 180, market_cap = 200, ratio = 9/10, price = 2,
         change = 3, tag = ''B/USDT:USDT''\<rparr>]"
proof -
  have st: "get_high_volume_to_marketcap_contracts_st sample_env (\<lambda>fs. fs) sample_caps
       [''AUSDT'', ''BUSDT''] 20242 3 (1/2) 1
     = Inr [\<lparr>symbol = ''AUSDT'', volume_usdt = 60, market_cap = 100, ratio = 3/5,
              price = 0, change = 0, tag = ''A/USDT:USDT''\<rparr>]"
    by (simp add: screen_eval sample_eval string_defs upt_rec)
  have bn: "get_high_volume_to_marketcap_contracts_bn sample_caps sample_contracts (1/2) 1
     = [\<lparr>symbol = ''BUSDT'', volume_usdt = 180, market_cap = 200, ratio = 9/10, price = 2,
         change = 3, tag = ''B/USDT:USDT''\<rparr>]"
    by (simp add: screen_eval string_defs)
  have limit: "(0::int) \<le> 1" by simp
  from st bn limit
    ranked_output [of sample_env "\<lambda>fs. fs" sample_caps "[''AUSDT'', ''BUSDT'']" 20242 3 "1/2" 1]
  show ?thesis by simp
qed


end
